theory Spec2Isabelle
  imports Main "HOL-Library.Word"
begin

section \<open>The keyring service of the wallet background (src/keyring/service.ts)\<close>

text \<open>
  The class \<open>KeyRingService\<close> is a thin orchestration layer: every method calls its
  collaborators (the \<open>KeyRing\<close> object, the chains service, the interaction service,
  the JSON-RPC transport and a few library functions) in a fixed order, checks what they
  return and throws or dispatches events accordingly. The embedding keeps that shape:

  \<^item> values that cross the message boundary untyped (\<open>any\<close>, \<open>object\<close>, casts) are
    JavaScript values, \<open>jsval\<close>;
  \<^item> a thrown exception or a rejected promise is the \<open>Inl\<close> of a sum;
  \<^item> the service runs on a state made of the world outside it (\<open>'w\<close>: the keyring, the
    store, the user in front of the approval page) and of the trace of the calls made
    to collaborators with an effect;
  \<^item> the collaborators, whose code is not part of the file, are the fields of a record
    of functions over \<open>'w\<close>.

  \<open>console.log\<close> calls are left out; \<open>await\<close> is sequencing. A value handed to a
  collaborator is not changed by it (requests and answers of the approval page are
  copies), \<open>dispatchEvent\<close> does not throw, and the serialisers \<open>serializeSignDoc\<close>,
  \<open>makeSignBytes\<close> and \<open>SignDoc.encode\<close> are total.
\<close>

subsection \<open>JavaScript values\<close>

type_synonym bytes = "8 word list"

datatype jsval =
    JUndefined
  | JNull
  | JBool bool
  | JNum int
  | JStr string
  | JBytes bytes
  | JArr "jsval list"
  | JObj "(string \<times> jsval) list"

type_synonym jsobject = "(string \<times> jsval) list"

datatype error =
    OWalletError string nat string
  | Error string
  | TypeError

text \<open>\<open>x == null\<close>: true for \<open>null\<close> and \<open>undefined\<close> only.\<close>

fun nullish :: "jsval \<Rightarrow> bool" where
  "nullish JUndefined = True"
| "nullish JNull = True"
| "nullish _ = False"

text \<open>The values that \<open>||\<close> and \<open>if\<close> take as true. Numbers are integers here, so
  \<open>NaN\<close> does not occur.\<close>

fun truthy :: "jsval \<Rightarrow> bool" where
  "truthy JUndefined = False"
| "truthy JNull = False"
| "truthy (JBool b) = b"
| "truthy (JNum n) = (n \<noteq> 0)"
| "truthy (JStr s) = (s \<noteq> [])"
| "truthy _ = True"

text \<open>\<open>a || b\<close> and \<open>a ?? b\<close>.\<close>

definition js_or :: "jsval \<Rightarrow> jsval \<Rightarrow> jsval" where
  "js_or a b = (if truthy a then a else b)"

definition js_nullish_or :: "jsval \<Rightarrow> jsval \<Rightarrow> jsval" where
  "js_nullish_or a b = (if nullish a then b else a)"

text \<open>Reading a property of an object literal: a missing key reads \<open>undefined\<close>.\<close>

definition get_prop :: "jsobject \<Rightarrow> string \<Rightarrow> jsval" where
  "get_prop obj k = (case map_of obj k of None \<Rightarrow> JUndefined | Some v \<Rightarrow> v)"

text \<open>\<open>{...obj, k: v}\<close>: an existing key keeps its place and takes the new value, a new
  key goes to the end.\<close>

fun set_prop :: "string \<Rightarrow> jsval \<Rightarrow> jsobject \<Rightarrow> jsobject" where
  "set_prop k v [] = [(k, v)]"
| "set_prop k v ((k', v') # rest) =
     (if k = k' then (k, v) # rest else (k', v') # set_prop k v rest)"

text \<open>\<open>v.k\<close> on any value: a TypeError on \<open>null\<close> and \<open>undefined\<close>, the property on an
  object, \<open>undefined\<close> otherwise. The service reads only the names \<open>msgs\<close>, \<open>value\<close>,
  \<open>signer\<close>, \<open>isADR36WithString\<close>, \<open>typedMessage\<close>, \<open>version\<close>, \<open>defaultCoinType\<close>,
  \<open>gasPrice\<close>, \<open>gasLimit\<close>, \<open>memo\<close> and \<open>fees\<close>, none of which is a built-in property of
  a string, number, boolean or array.\<close>

fun js_get :: "jsval \<Rightarrow> string \<Rightarrow> error + jsval" where
  "js_get JUndefined k = Inl TypeError"
| "js_get JNull k = Inl TypeError"
| "js_get (JObj obj) k = Inr (get_prop obj k)"
| "js_get _ k = Inr JUndefined"

text \<open>\<open>v[0]\<close>.\<close>

fun js_first :: "jsval \<Rightarrow> error + jsval" where
  "js_first JUndefined = Inl TypeError"
| "js_first JNull = Inl TypeError"
| "js_first (JArr xs) = Inr (case xs of [] \<Rightarrow> JUndefined | x # _ \<Rightarrow> x)"
| "js_first (JObj obj) = Inr (get_prop obj ''0'')"
| "js_first (JStr s) = Inr (case s of [] \<Rightarrow> JUndefined | ch # _ \<Rightarrow> JStr [ch])"
| "js_first (JBytes bs) = Inr (case bs of [] \<Rightarrow> JUndefined | b # _ \<Rightarrow> JNum (uint b))"
| "js_first _ = Inr JUndefined"

subsection \<open>Types of the collaborators\<close>

datatype KeyRingStatus = NOTLOADED | EMPTY | LOCKED | UNLOCKED

datatype port = APP_PORT | WEBPAGE_PORT

text \<open>\<open>Key\<close> (declared in \<open>./keyring\<close>) and \<open>ChainInfo\<close> (\<open>@owallet/types\<close>), with the
  fields the service reads.\<close>

record Key =
  pubKey :: bytes
  address :: bytes

record Currency =
  coinDecimals :: int

record ChainInfo =
  bech32PrefixAccAddr :: string
  rest :: string
  feeCurrencies :: "Currency list option"

text \<open>\<open>StdSignature\<close> of \<open>@cosmjs/launchpad\<close>:
  \<open>{pub_key: {type, value}, signature}\<close>, the last two in base64.\<close>

record StdSignature =
  pub_key_type :: string
  pub_key_value :: string
  signature :: string

text \<open>\<open>AminoSignResponse\<close> and \<open>DirectSignResponse\<close>: \<open>{signed, signature}\<close>.\<close>

record SignResponse =
  signed :: jsval
  sig :: StdSignature

text \<open>The calls with an effect outside the service, as the trace records them.\<close>

datatype call =
    WaitApprove jsval string string jsval
  | DispatchEvent port string jsval
  | RpcRequest string string "jsval list"
  | KeyRingSign jsval string int bytes
  | KeyRingSignAndBroadcastEthereum string int string jsobject
  | KeyRingOp string

record 'w state =
  world :: 'w
  trace :: "call list"

text \<open>The collaborators. Queries read the world; operations return a new one.\<close>

record 'w collab =
  \<comment> \<open>\<open>this.keyRing\<close>\<close>
  keyRing_status :: "'w \<Rightarrow> KeyRingStatus"
  keyRing_restore :: "'w \<Rightarrow> (error + unit) \<times> 'w"
  keyRing_getKey :: "string \<Rightarrow> int \<Rightarrow> 'w \<Rightarrow> error + Key"
  keyRing_sign :: "jsval \<Rightarrow> string \<Rightarrow> int \<Rightarrow> bytes \<Rightarrow> 'w \<Rightarrow> (error + bytes) \<times> 'w"
  keyRing_signAndBroadcastEthereum ::
    "string \<Rightarrow> int \<Rightarrow> string \<Rightarrow> jsobject \<Rightarrow> 'w \<Rightarrow> (error + string) \<times> 'w"
  keyRing_signEthereumTypedData ::
    "jsval \<Rightarrow> jsval \<Rightarrow> string \<Rightarrow> jsval \<Rightarrow> 'w \<Rightarrow> (error + jsval) \<times> 'w"
  keyRing_signProxyDecryptionData :: "string \<Rightarrow> jsobject \<Rightarrow> 'w \<Rightarrow> (error + jsval) \<times> 'w"
  keyRing_signProxyReEncryptionData :: "string \<Rightarrow> jsobject \<Rightarrow> 'w \<Rightarrow> (error + jsval) \<times> 'w"
  keyRing_changeKeyStoreFromMultiKeyStore :: "int \<Rightarrow> 'w \<Rightarrow> (error + jsval) \<times> 'w"
  keyRing_computeKeyStoreCoinType :: "string \<Rightarrow> int \<Rightarrow> 'w \<Rightarrow> error + int"
  keyRing_setKeyStoreCoinType :: "string \<Rightarrow> int \<Rightarrow> 'w \<Rightarrow> (error + unit) \<times> 'w"
  \<comment> \<open>\<open>this.chainsService\<close>\<close>
  getChainCoinType :: "string \<Rightarrow> 'w \<Rightarrow> error + int"
  getChainInfo :: "string \<Rightarrow> 'w \<Rightarrow> error + ChainInfo"
  \<comment> \<open>\<open>this.interactionService.waitApprove(env, url, type, data)\<close>\<close>
  waitApprove :: "jsval \<Rightarrow> string \<Rightarrow> string \<Rightarrow> jsval \<Rightarrow> 'w \<Rightarrow> (error + jsval) \<times> 'w"
  \<comment> \<open>\<open>request(rpc, method, params)\<close> of \<open>../tx\<close>\<close>
  request :: "string \<Rightarrow> string \<Rightarrow> jsval list \<Rightarrow> 'w \<Rightarrow> (error + jsval) \<times> 'w"
  \<comment> \<open>library functions\<close>
  toBech32 :: "bytes \<Rightarrow> string \<Rightarrow> error + string"
  checkAndValidateADR36AminoSignDoc :: "jsval \<Rightarrow> string \<Rightarrow> error + bool"
  makeADR36AminoSignDoc :: "string \<Rightarrow> bytes \<Rightarrow> jsval"
  lib_verifyADR36AminoSignDoc :: "string \<Rightarrow> jsval \<Rightarrow> bytes \<Rightarrow> bytes \<Rightarrow> error + bool"
  serializeSignDoc :: "jsval \<Rightarrow> bytes"
  makeSignBytes :: "jsval \<Rightarrow> bytes"
  encodeSecp256k1Signature :: "bytes \<Rightarrow> bytes \<Rightarrow> error + StdSignature"
  SignDoc_encode :: "jsval \<Rightarrow> bytes"
  SignDoc_decode :: "jsval \<Rightarrow> error + jsval"
  toBase64 :: "bytes \<Rightarrow> string"
  fromBase64 :: "string \<Rightarrow> bytes"

subsection \<open>Sequencing, exceptions and \<open>try\<close> blocks\<close>

type_synonym ('w, 'a) prog = "'w state \<Rightarrow> (error + 'a) \<times> 'w state"

definition ret :: "'a \<Rightarrow> ('w, 'a) prog" where
  "ret x s = (Inr x, s)"

definition throw :: "error \<Rightarrow> ('w, 'a) prog" where
  "throw e s = (Inl e, s)"

definition bnd :: "('w, 'a) prog \<Rightarrow> ('a \<Rightarrow> ('w, 'b) prog) \<Rightarrow> ('w, 'b) prog" where
  "bnd m f s = (case m s of (Inl e, s') \<Rightarrow> (Inl e, s') | (Inr x, s') \<Rightarrow> f x s')"

text \<open>A value or an exception of a pure computation.\<close>

definition pure :: "error + 'a \<Rightarrow> ('w, 'a) prog" where
  "pure r s = (r, s)"

text \<open>A query of the world.\<close>

definition query :: "('w \<Rightarrow> error + 'a) \<Rightarrow> ('w, 'a) prog" where
  "query q s = (q (world s), s)"

text \<open>An operation on the world: the call goes to the trace, then the collaborator runs.\<close>

definition invoke :: "call \<Rightarrow> ('w \<Rightarrow> (error + 'a) \<times> 'w) \<Rightarrow> ('w, 'a) prog" where
  "invoke c f s =
     (case f (world s) of (r, w') \<Rightarrow> (r, s\<lparr>world := w', trace := trace s @ [c]\<rparr>))"

text \<open>\<open>try { m } finally { fin }\<close>: \<open>fin\<close> runs whatever \<open>m\<close> did; the outcome is that of
  \<open>m\<close> unless \<open>fin\<close> throws.\<close>

definition try_finally :: "('w, 'a) prog \<Rightarrow> ('w, unit) prog \<Rightarrow> ('w, 'a) prog" where
  "try_finally m fin s =
     (case m s of (r, s') \<Rightarrow>
        (case fin s' of (Inl e, s'') \<Rightarrow> (Inl e, s'') | (Inr _, s'') \<Rightarrow> (r, s'')))"

text \<open>\<open>try { m } catch (e) { h e }\<close>.\<close>

definition try_catch :: "('w, 'a) prog \<Rightarrow> (error \<Rightarrow> ('w, 'a) prog) \<Rightarrow> ('w, 'a) prog" where
  "try_catch m h s = (case m s of (Inl e, s') \<Rightarrow> h e s' | (Inr x, s') \<Rightarrow> (Inr x, s'))"

text \<open>\<open>this.interactionService.dispatchEvent(port, type, data)\<close>: fire and forget.\<close>

definition dispatchEvent :: "port \<Rightarrow> string \<Rightarrow> jsval \<Rightarrow> ('w, unit) prog" where
  "dispatchEvent p name data s = (Inr (), s\<lparr>trace := trace s @ [DispatchEvent p name data]\<rparr>)"

text \<open>What a run added to the trace, and how many events of a given name it holds.\<close>

definition emitted :: "'w state \<Rightarrow> 'w state \<Rightarrow> call list" where
  "emitted s s' = drop (length (trace s)) (trace s')"

fun is_dispatch :: "port \<Rightarrow> string \<Rightarrow> call \<Rightarrow> bool" where
  "is_dispatch p name (DispatchEvent p' name' data) = (p' = p \<and> name' = name)"
| "is_dispatch p name _ = False"

fun is_waitApprove :: "call \<Rightarrow> bool" where
  "is_waitApprove (WaitApprove env url type data) = True"
| "is_waitApprove _ = False"

definition dispatched :: "port \<Rightarrow> string \<Rightarrow> call list \<Rightarrow> nat" where
  "dispatched p name cs = length (filter (is_dispatch p name) cs)"

subsection \<open>\<open>enable\<close>\<close>

definition enable :: "'w collab \<Rightarrow> jsval \<Rightarrow> ('w, KeyRingStatus) prog" where
  "enable c env =
     bnd (query (\<lambda>w. Inr (keyRing_status c w))) (\<lambda>status0.
     if status0 = EMPTY then throw (OWalletError ''keyring'' 261 ''key doesn't exist'')
     else
       bnd (if status0 = NOTLOADED
            then invoke (KeyRingOp ''restore'') (keyRing_restore c)
            else ret ()) (\<lambda>_.
       bnd (query (\<lambda>w. Inr (keyRing_status c w))) (\<lambda>status1.
       if status1 = LOCKED then
         bnd (invoke (WaitApprove env ''/unlock'' ''unlock'' (JObj []))
                (waitApprove c env ''/unlock'' ''unlock'' (JObj []))) (\<lambda>_.
         query (\<lambda>w. Inr (keyRing_status c w)))
       else query (\<lambda>w. Inr (keyRing_status c w)))))"

subsection \<open>\<open>requestSignAmino\<close>\<close>

definition sbind :: "error + 'a \<Rightarrow> ('a \<Rightarrow> error + 'b) \<Rightarrow> error + 'b" where
  "sbind r f = (case r of Inl e \<Rightarrow> Inl e | Inr x \<Rightarrow> f x)"

text \<open>\<open>signDoc.msgs[0].value.signer\<close>.\<close>

definition signDoc_msgs0_value_signer :: "jsval \<Rightarrow> error + jsval" where
  "signDoc_msgs0_value_signer signDoc =
     sbind (js_get signDoc ''msgs'') (\<lambda>msgs.
     sbind (js_first msgs) (\<lambda>msg.
     sbind (js_get msg ''value'') (\<lambda>v.
     js_get v ''signer'')))"

definition requestSignAmino ::
  "'w collab \<Rightarrow> jsval \<Rightarrow> string \<Rightarrow> string \<Rightarrow> string \<Rightarrow> jsval \<Rightarrow> jsval \<Rightarrow> ('w, SignResponse) prog"
where
  \<open>requestSignAmino c env msgOrigin chainId signer signDoc signOptions =
     bnd (query (getChainCoinType c chainId)) (\<lambda>coinType.
     bnd (query (keyRing_getKey c chainId coinType)) (\<lambda>key.
     bnd (query (getChainInfo c chainId)) (\<lambda>chainInfo.
     let bech32Prefix = bech32PrefixAccAddr chainInfo in
     bnd (pure (toBech32 c (address key) bech32Prefix)) (\<lambda>bech32Address.
     if signer \<noteq> bech32Address then throw (Error ''Signer mismatched'')
     else
     bnd (pure (checkAndValidateADR36AminoSignDoc c signDoc bech32Prefix)) (\<lambda>isADR36SignDoc.
     bnd (if isADR36SignDoc then
            bnd (pure (signDoc_msgs0_value_signer signDoc)) (\<lambda>docSigner.
            if docSigner \<noteq> JStr signer
            then throw (OWalletError ''keyring'' 233 ''Unmatched signer in sign doc'')
            else ret ())
          else ret ()) (\<lambda>_.
     bnd (pure (js_get signOptions ''isADR36WithString'')) (\<lambda>isADR36WithString.
     if \<not> nullish isADR36WithString \<and> \<not> isADR36SignDoc
     then throw (OWalletError ''keyring'' 236
       ''Sign doc is not for ADR-36. But, "isADR36WithString" option is defined'')
     else
     let data = JObj [
           (''msgOrigin'', JStr msgOrigin),
           (''chainId'', JStr chainId),
           (''mode'', JStr ''amino''),
           (''signDoc'', signDoc),
           (''signer'', JStr signer),
           (''signOptions'', signOptions),
           (''isADR36SignDoc'', JBool isADR36SignDoc),
           (''isADR36WithString'', isADR36WithString)] in
     bnd (invoke (WaitApprove env ''/sign'' ''request-sign'' data)
            (waitApprove c env ''/sign'' ''request-sign'' data)) (\<lambda>newSignDoc.
     bnd (if isADR36SignDoc then
            bnd (pure (checkAndValidateADR36AminoSignDoc c signDoc bech32Prefix)) (\<lambda>again.
            if again then
              bnd (pure (signDoc_msgs0_value_signer signDoc)) (\<lambda>docSigner.
              if docSigner \<noteq> JStr signer
              then throw (OWalletError ''keyring'' 232 ''Unmatched signer in new sign doc'')
              else ret ())
            else throw (OWalletError ''keyring'' 237
              ''Signing request was for ADR-36. But, accidentally, new sign doc is not for ADR-36''))
          else ret ()) (\<lambda>_.
     try_finally
       (bnd (invoke (KeyRingSign env chainId coinType (serializeSignDoc c newSignDoc))
               (keyRing_sign c env chainId coinType (serializeSignDoc c newSignDoc))) (\<lambda>signature.
        bnd (pure (encodeSecp256k1Signature c (pubKey key) signature)) (\<lambda>encoded.
        ret \<lparr>signed = newSignDoc, sig = encoded\<rparr>)))
       (dispatchEvent APP_PORT ''request-sign-end'' (JObj [])))))))))))\<close>

subsection \<open>\<open>requestSignDirect\<close>\<close>

text \<open>The \<open>catch\<close> block only logs, so a failed signature makes the method return
  \<open>undefined\<close>: \<open>None\<close>.\<close>

definition requestSignDirect ::
  "'w collab \<Rightarrow> jsval \<Rightarrow> string \<Rightarrow> string \<Rightarrow> string \<Rightarrow> jsval \<Rightarrow> jsval
     \<Rightarrow> ('w, SignResponse option) prog"
where
  "requestSignDirect c env msgOrigin chainId signer signDoc signOptions =
     bnd (query (getChainCoinType c chainId)) (\<lambda>coinType.
     bnd (query (keyRing_getKey c chainId coinType)) (\<lambda>key.
     bnd (query (getChainInfo c chainId)) (\<lambda>chainInfo.
     bnd (pure (toBech32 c (address key) (bech32PrefixAccAddr chainInfo))) (\<lambda>bech32Address.
     if signer \<noteq> bech32Address then throw (Error ''Signer mismatched'')
     else
     let data = JObj [
           (''msgOrigin'', JStr msgOrigin),
           (''chainId'', JStr chainId),
           (''mode'', JStr ''direct''),
           (''signDocBytes'', JBytes (SignDoc_encode c signDoc)),
           (''signer'', JStr signer),
           (''signOptions'', signOptions)] in
     bnd (invoke (WaitApprove env ''/sign'' ''request-sign'' data)
            (waitApprove c env ''/sign'' ''request-sign'' data)) (\<lambda>newSignDocBytes.
     bnd (pure (SignDoc_decode c newSignDocBytes)) (\<lambda>newSignDoc.
     try_finally
       (try_catch
          (bnd (invoke (KeyRingSign env chainId coinType (makeSignBytes c newSignDoc))
                  (keyRing_sign c env chainId coinType (makeSignBytes c newSignDoc))) (\<lambda>signature.
           bnd (pure (encodeSecp256k1Signature c (pubKey key) signature)) (\<lambda>encoded.
           ret (Some \<lparr>signed = newSignDoc, sig = encoded\<rparr>))))
          (\<lambda>e. ret None))
       (dispatchEvent APP_PORT ''request-sign-end'' (JObj []))))))))"

subsection \<open>\<open>estimateFeeAndWaitApprove\<close>\<close>

text \<open>\<open>chainInfo.feeCurrencies?.[0].coinDecimals\<close>: \<open>undefined\<close> without the array, a
  TypeError on an empty one.\<close>

definition feeCurrencies0_coinDecimals :: "ChainInfo \<Rightarrow> error + jsval" where
  "feeCurrencies0_coinDecimals chainInfo =
     (case feeCurrencies chainInfo of
        None \<Rightarrow> Inr JUndefined
      | Some [] \<Rightarrow> Inl TypeError
      | Some (cur # _) \<Rightarrow> Inr (JNum (coinDecimals cur)))"

text \<open>The object passed to the approval page (the literal at lines 563 to 573).\<close>

definition sign_ethereum_payload ::
  "jsval \<Rightarrow> string \<Rightarrow> jsobject \<Rightarrow> jsval \<Rightarrow> jsval \<Rightarrow> jsval \<Rightarrow> jsval"
where
  "sign_ethereum_payload env chainId data decimals estimatedGasPrice estimatedGasLimit =
     JObj [
       (''env'', env),
       (''chainId'', JStr chainId),
       (''mode'', JStr ''direct''),
       (''data'', JObj
          (set_prop ''decimals'' decimals
          (set_prop ''estimatedGasLimit'' (js_or (get_prop data ''gas'') estimatedGasLimit)
          (set_prop ''estimatedGasPrice'' (js_or (get_prop data ''gasPrice'') estimatedGasPrice)
           data))))]"

text \<open>What is done with the answer (lines 576 to 583): the four fields are read, with
  defaults for \<open>gasPrice\<close> and \<open>memo\<close>, and written over the caller's object.\<close>

definition merge_approved :: "jsobject \<Rightarrow> jsval \<Rightarrow> error + jsobject" where
  "merge_approved data approveData =
     sbind (js_get approveData ''gasPrice'') (\<lambda>approved_gasPrice.
     sbind (js_get approveData ''memo'') (\<lambda>approved_memo.
     sbind (js_get approveData ''gasLimit'') (\<lambda>gasLimit.
     sbind (js_get approveData ''fees'') (\<lambda>fees.
     let gasPrice = js_nullish_or approved_gasPrice (JStr ''0x0'');
         memo = js_nullish_or approved_memo (JStr [])
     in Inr (set_prop ''fees'' fees
            (set_prop ''memo'' memo
            (set_prop ''gasLimit'' gasLimit
            (set_prop ''gasPrice'' gasPrice data))))))))"

definition estimateFeeAndWaitApprove ::
  "'w collab \<Rightarrow> jsval \<Rightarrow> string \<Rightarrow> string \<Rightarrow> jsobject \<Rightarrow> ('w, jsobject) prog"
where
  "estimateFeeAndWaitApprove c env chainId rpc data =
     bnd (query (getChainInfo c chainId)) (\<lambda>chainInfo.
     bnd (pure (feeCurrencies0_coinDecimals chainInfo)) (\<lambda>decimals.
     bnd (invoke (RpcRequest rpc ''eth_gasPrice'' [])
            (request c rpc ''eth_gasPrice'' [])) (\<lambda>estimatedGasPrice.
     let params = [JObj (set_prop ''maxPriorityFeePerGas'' JUndefined
                          (set_prop ''maxFeePerGas'' JUndefined data))] in
     bnd (try_catch
            (invoke (RpcRequest rpc ''eth_estimateGas'' params)
               (request c rpc ''eth_estimateGas'' params))
            (\<lambda>error. ret (JStr ''0x5028''))) (\<lambda>estimatedGasLimit.
     let payload =
           sign_ethereum_payload env chainId data decimals estimatedGasPrice estimatedGasLimit in
     bnd (invoke (WaitApprove env ''/sign'' ''request-sign-ethereum'' payload)
            (waitApprove c env ''/sign'' ''request-sign-ethereum'' payload)) (\<lambda>approveData.
     pure (merge_approved data approveData))))))"

subsection \<open>The Ethereum and proxy signing requests\<close>

definition requestSignEthereum ::
  "'w collab \<Rightarrow> jsval \<Rightarrow> string \<Rightarrow> jsobject \<Rightarrow> ('w, string) prog"
where
  "requestSignEthereum c env chainId data =
     bnd (query (getChainCoinType c chainId)) (\<lambda>coinType.
     bnd (query (getChainInfo c chainId)) (\<lambda>chainInfo.
     let rpc = rest chainInfo in
     bnd (estimateFeeAndWaitApprove c env chainId rpc data) (\<lambda>newData.
     try_finally
       (invoke (KeyRingSignAndBroadcastEthereum chainId coinType rpc newData)
          (keyRing_signAndBroadcastEthereum c chainId coinType rpc newData))
       (dispatchEvent APP_PORT ''request-sign-ethereum-end'' (JObj [])))))"

text \<open>In the three methods below the whole body is inside \<open>try\<close>, the \<open>catch\<close> block
  only logs (the method then returns \<open>undefined\<close>), and \<open>finally\<close> dispatches.\<close>

definition requestSignEthereumTypedData ::
  "'w collab \<Rightarrow> jsval \<Rightarrow> string \<Rightarrow> jsval \<Rightarrow> ('w, jsval) prog"
where
  "requestSignEthereumTypedData c env chainId data =
     try_finally
       (try_catch
          (bnd (pure (js_get data ''typedMessage'')) (\<lambda>typedMessage.
           bnd (pure (js_get data ''version'')) (\<lambda>version.
           bnd (pure (js_get data ''defaultCoinType'')) (\<lambda>defaultCoinType.
           invoke (KeyRingOp ''signEthereumTypedData'')
             (keyRing_signEthereumTypedData c typedMessage version chainId defaultCoinType)))))
          (\<lambda>e. ret JUndefined))
       (dispatchEvent APP_PORT ''request-sign-end'' (JObj []))"

definition requestSignProxyDecryptionData ::
  "'w collab \<Rightarrow> jsval \<Rightarrow> string \<Rightarrow> jsobject \<Rightarrow> ('w, jsval) prog"
where
  "requestSignProxyDecryptionData c env chainId data =
     try_finally
       (try_catch
          (bnd (query (getChainInfo c chainId)) (\<lambda>chainInfo.
           let rpc = rest chainInfo in
           bnd (estimateFeeAndWaitApprove c env chainId rpc data) (\<lambda>newData.
           invoke (KeyRingOp ''signProxyDecryptionData'')
             (keyRing_signProxyDecryptionData c chainId newData))))
          (\<lambda>e. ret JUndefined))
       (dispatchEvent APP_PORT ''request-sign-ethereum-end'' (JObj []))"

definition requestSignProxyReEncryptionData ::
  "'w collab \<Rightarrow> jsval \<Rightarrow> string \<Rightarrow> jsobject \<Rightarrow> ('w, jsval) prog"
where
  "requestSignProxyReEncryptionData c env chainId data =
     try_finally
       (try_catch
          (bnd (query (getChainInfo c chainId)) (\<lambda>chainInfo.
           let rpc = rest chainInfo in
           bnd (estimateFeeAndWaitApprove c env chainId rpc data) (\<lambda>newData.
           invoke (KeyRingOp ''signProxyReEncryptionData'')
             (keyRing_signProxyReEncryptionData c chainId newData))))
          (\<lambda>e. ret JUndefined))
       (dispatchEvent APP_PORT ''request-sign-ethereum-end'' (JObj []))"

subsection \<open>\<open>verifyADR36AminoSignDoc\<close>\<close>

definition verifyADR36AminoSignDoc ::
  "'w collab \<Rightarrow> string \<Rightarrow> string \<Rightarrow> bytes \<Rightarrow> StdSignature \<Rightarrow> ('w, bool) prog"
where
  "verifyADR36AminoSignDoc c chainId signer data sg =
     bnd (query (getChainCoinType c chainId)) (\<lambda>coinType.
     bnd (query (keyRing_getKey c chainId coinType)) (\<lambda>key.
     bnd (query (getChainInfo c chainId)) (\<lambda>chainInfo.
     let bech32Prefix = bech32PrefixAccAddr chainInfo in
     bnd (pure (toBech32 c (address key) bech32Prefix)) (\<lambda>bech32Address.
     if signer \<noteq> bech32Address then throw (Error ''Signer mismatched'')
     else if pub_key_type sg \<noteq> ''tendermint/PubKeySecp256k1''
     then throw (Error (''Unsupported type of pub key: '' @ pub_key_type sg))
     else if toBase64 c (pubKey key) \<noteq> pub_key_value sg
     then throw (Error ''Pub key unmatched'')
     else
       let signDoc = makeADR36AminoSignDoc c signer data in
       pure (lib_verifyADR36AminoSignDoc c bech32Prefix signDoc
               (fromBase64 c (pub_key_value sg)) (fromBase64 c (signature sg)))))))"

subsection \<open>Key store selection and coin type\<close>

definition changeKeyStoreFromMultiKeyStore :: "'w collab \<Rightarrow> int \<Rightarrow> ('w, jsval) prog" where
  "changeKeyStoreFromMultiKeyStore c index =
     try_finally
       (invoke (KeyRingOp ''changeKeyStoreFromMultiKeyStore'')
          (keyRing_changeKeyStoreFromMultiKeyStore c index))
       (dispatchEvent WEBPAGE_PORT ''keystore-changed'' (JObj []))"

definition setKeyStoreCoinType :: "'w collab \<Rightarrow> string \<Rightarrow> int \<Rightarrow> ('w, unit) prog" where
  "setKeyStoreCoinType c chainId coinType =
     bnd (query (getChainCoinType c chainId)) (\<lambda>defaultCoinType.
     bnd (query (keyRing_computeKeyStoreCoinType c chainId defaultCoinType)) (\<lambda>prevCoinType.
     bnd (invoke (KeyRingOp ''setKeyStoreCoinType'')
            (keyRing_setKeyStoreCoinType c chainId coinType)) (\<lambda>_.
     if prevCoinType \<noteq> coinType
     then dispatchEvent WEBPAGE_PORT ''keystore-changed'' (JObj [])
     else ret ())))"

subsection \<open>Observations on traces\<close>

text \<open>The events that tell the application that a signing request has ended, and the
  calls that ask the keyring for a signature.\<close>

definition completion_events :: "call list \<Rightarrow> nat" where
  "completion_events cs =
     dispatched APP_PORT ''request-sign-end'' cs
     + dispatched APP_PORT ''request-sign-ethereum-end'' cs"

fun is_signing :: "call \<Rightarrow> bool" where
  "is_signing (KeyRingSign env chainId coinType message) = True"
| "is_signing (KeyRingSignAndBroadcastEthereum chainId coinType rpc data) = True"
| "is_signing _ = False"

definition signing_calls :: "call list \<Rightarrow> nat" where
  "signing_calls cs = length (filter is_signing cs)"

text \<open>The gas price and gas limit hints that an approval request shows:
  \<open>data.estimatedGasPrice\<close> and \<open>data.estimatedGasLimit\<close> of its payload.\<close>

fun approval_hints :: "call \<Rightarrow> (jsval \<times> jsval) option" where
  "approval_hints (WaitApprove env url type payload) =
     (case sbind (js_get payload ''data'') (\<lambda>d.
           sbind (js_get d ''estimatedGasPrice'') (\<lambda>p.
           sbind (js_get d ''estimatedGasLimit'') (\<lambda>l. Inr (p, l)))) of
        Inl e \<Rightarrow> None
      | Inr hints \<Rightarrow> Some hints)"
| "approval_hints _ = None"

subsection \<open>A sample environment\<close>

text \<open>A small world on which the service can be run: one unlocked or locked key, one
  chain, a user whose answer to the approval page is part of the world, and an RPC node
  whose answer to \<open>eth_estimateGas\<close> is part of the world too. Its keyring sets the coin
  type of a chain once, while unlocked, and refuses otherwise.\<close>

record sample_world =
  sw_status :: KeyRingStatus
  sw_restored :: KeyRingStatus
  sw_after_approval :: KeyRingStatus
  sw_approval :: "error + jsval"
  sw_estimateGas :: "error + jsval"
  sw_coinType :: "int option"
  sw_selected :: int

definition sample_isADR36 :: "jsval \<Rightarrow> string \<Rightarrow> error + bool" where
  "sample_isADR36 signDoc prefix =
     (case js_get signDoc ''msgs'' of
        Inr (JArr [msg]) \<Rightarrow>
          (case js_get msg ''type'' of
             Inl e \<Rightarrow> Inl e
           | Inr t \<Rightarrow> Inr (t = JStr ''sign/MsgSignData''))
      | _ \<Rightarrow> Inr False)"

definition adr36_doc :: "string \<Rightarrow> string \<Rightarrow> jsval" where
  "adr36_doc signer data64 = JObj [
     (''chain_id'', JStr []),
     (''account_number'', JStr ''0''),
     (''sequence'', JStr ''0''),
     (''fee'', JObj [(''gas'', JStr ''0''), (''amount'', JArr [])]),
     (''msgs'', JArr [JObj [
        (''type'', JStr ''sign/MsgSignData''),
        (''value'', JObj [(''signer'', JStr signer), (''data'', JStr data64)])]]),
     (''memo'', JStr [])]"

definition send_doc :: "string \<Rightarrow> string \<Rightarrow> jsval" where
  "send_doc sender recipient = JObj [
     (''chain_id'', JStr ''cosmoshub-4''),
     (''account_number'', JStr ''12''),
     (''sequence'', JStr ''3''),
     (''fee'', JObj [(''gas'', JStr ''200000''), (''amount'', JArr [])]),
     (''msgs'', JArr [JObj [
        (''type'', JStr ''cosmos-sdk/MsgSend''),
        (''value'', JObj [
           (''from_address'', JStr sender),
           (''to_address'', JStr recipient),
           (''amount'', JArr [JObj [(''denom'', JStr ''uatom''), (''amount'', JStr ''1000000'')]])])]]),
     (''memo'', JStr [])]"

definition sample_chainInfo :: ChainInfo where
  "sample_chainInfo =
     \<lparr>bech32PrefixAccAddr = ''cosmos'', rest = ''https://rpc.example'',
      feeCurrencies = Some [\<lparr>coinDecimals = 6\<rparr>]\<rparr>"

definition sample_key :: Key where
  "sample_key = \<lparr>pubKey = [2, 3], address = [7]\<rparr>"

definition sample_sign :: "bytes \<Rightarrow> sample_world \<Rightarrow> (error + bytes) \<times> sample_world" where
  "sample_sign message w =
     (if sw_status w = UNLOCKED then Inr (message @ [255])
      else Inl (Error ''Key ring is not unlocked''), w)"

definition sample :: "sample_world collab" where
  "sample = \<lparr>
     keyRing_status = sw_status,
     keyRing_restore = (\<lambda>w. (Inr (), w\<lparr>sw_status := sw_restored w\<rparr>)),
     keyRing_getKey = (\<lambda>chainId coinType w.
        if sw_status w = UNLOCKED then Inr sample_key
        else Inl (Error ''Key ring is not unlocked'')),
     keyRing_sign = (\<lambda>env chainId coinType. sample_sign),
     keyRing_signAndBroadcastEthereum = (\<lambda>chainId coinType rpc data w.
        (if sw_status w = UNLOCKED then Inr ''0xabcd''
         else Inl (Error ''Key ring is not unlocked''), w)),
     keyRing_signEthereumTypedData = (\<lambda>typedMessage version chainId defaultCoinType w.
        (if sw_status w = UNLOCKED then Inr (JObj [(''v'', JNum 27)])
         else Inl (Error ''Key ring is not unlocked''), w)),
     keyRing_signProxyDecryptionData = (\<lambda>chainId data w.
        (if sw_status w = UNLOCKED then Inr (JObj data)
         else Inl (Error ''Key ring is not unlocked''), w)),
     keyRing_signProxyReEncryptionData = (\<lambda>chainId data w.
        (if sw_status w = UNLOCKED then Inr (JObj data)
         else Inl (Error ''Key ring is not unlocked''), w)),
     keyRing_changeKeyStoreFromMultiKeyStore = (\<lambda>index w.
        if 0 \<le> index \<and> index < 2 then (Inr (JNum index), w\<lparr>sw_selected := index\<rparr>)
        else (Inl (Error ''Invalid keystore''), w)),
     keyRing_computeKeyStoreCoinType = (\<lambda>chainId defaultCoinType w.
        Inr (case sw_coinType w of None \<Rightarrow> defaultCoinType | Some coinType \<Rightarrow> coinType)),
     keyRing_setKeyStoreCoinType = (\<lambda>chainId coinType w.
        if sw_status w \<noteq> UNLOCKED then (Inl (Error ''Key ring is not unlocked''), w)
        else if sw_coinType w \<noteq> None then (Inl (Error ''Coin type already set''), w)
        else (Inr (), w\<lparr>sw_coinType := Some coinType\<rparr>)),
     getChainCoinType = (\<lambda>chainId w. Inr 118),
     getChainInfo = (\<lambda>chainId w. Inr sample_chainInfo),
     waitApprove = (\<lambda>env url type data w.
        (sw_approval w, w\<lparr>sw_status := sw_after_approval w\<rparr>)),
     request = (\<lambda>rpc method params w.
        (if method = ''eth_gasPrice'' then Inr (JStr ''0x3b9aca00'') else sw_estimateGas w, w)),
     toBech32 = (\<lambda>addr prefix. Inr (prefix @ ''1xyz'')),
     checkAndValidateADR36AminoSignDoc = sample_isADR36,
     makeADR36AminoSignDoc = (\<lambda>signer data. adr36_doc signer (map (\<lambda>b. CHR ''A'') data)),
     lib_verifyADR36AminoSignDoc = (\<lambda>prefix signDoc pk sg. Inr (sg = [1, 2, 2])),
     serializeSignDoc = (\<lambda>signDoc.
        case sample_isADR36 signDoc [] of Inr True \<Rightarrow> [54] | _ \<Rightarrow> [1]),
     makeSignBytes = (\<lambda>signDoc. [1]),
     encodeSecp256k1Signature = (\<lambda>pk sg. Inr
        \<lparr>pub_key_type = ''tendermint/PubKeySecp256k1'',
         pub_key_value = map (\<lambda>b. CHR ''A'') pk,
         signature = map (\<lambda>b. CHR ''A'') sg\<rparr>),
     SignDoc_encode = (\<lambda>signDoc. [1]),
     SignDoc_decode = (\<lambda>v.
        case v of JBytes bs \<Rightarrow> Inr (JObj [(''bodyBytes'', JBytes bs)]) | _ \<Rightarrow> Inl TypeError),
     toBase64 = map (\<lambda>b. CHR ''A''),
     fromBase64 = map (\<lambda>ch. if ch = CHR ''A'' then 1 else 2)
   \<rparr>"

text \<open>The sample world: unlocked, the user approves what is shown unchanged (the answer
  is set in each example), the node has no gas estimate.\<close>

definition sample_w :: sample_world where
  "sample_w = \<lparr>sw_status = UNLOCKED, sw_restored = LOCKED, sw_after_approval = UNLOCKED,
     sw_approval = Inl (Error ''Request rejected''),
     sw_estimateGas = Inl (Error ''execution reverted''),
     sw_coinType = None, sw_selected = 0\<rparr>"

definition sample_s :: "sample_world state" where
  "sample_s = \<lparr>world = sample_w, trace = []\<rparr>"

subsection \<open>What a method adds to the trace\<close>

text \<open>\<open>adds Q m\<close>: from any state, \<open>m\<close> only appends to the trace, and what it appends
  satisfies \<open>Q\<close>. The predicates below count completion events and signing calls in the
  appended part.\<close>

definition adds :: "(call list \<Rightarrow> bool) \<Rightarrow> ('w, 'a) prog \<Rightarrow> bool" where
  "adds Q m = (\<forall>s. \<exists>d. trace (snd (m s)) = trace s @ d \<and> Q d)"

definition silent :: "call list \<Rightarrow> bool" where
  "silent d = (completion_events d = 0 \<and> signing_calls d = 0)"

definition signed_once :: "call list \<Rightarrow> bool" where
  "signed_once d = (completion_events d = 0 \<and> signing_calls d = 1)"

definition ended :: "call list \<Rightarrow> bool" where
  "ended d = (completion_events d = 1 \<and> signing_calls d = 0)"

definition balanced :: "call list \<Rightarrow> bool" where
  "balanced d = (completion_events d = signing_calls d \<and> signing_calls d \<le> 1)"

definition once :: "call list \<Rightarrow> bool" where
  "once d = (completion_events d = 1)"

section \<open>Properties\<close>

subsection \<open>Basic facts\<close>

lemmas prog_defs = ret_def throw_def bnd_def pure_def query_def invoke_def
  try_finally_def try_catch_def dispatchEvent_def

lemmas sample_defs = sample_def sample_w_def sample_s_def sample_key_def sample_chainInfo_def
  sample_sign_def sample_isADR36_def adr36_doc_def send_doc_def

lemma get_prop_Cons:
  "get_prop ((k, v) # obj) k' = (if k' = k then v else get_prop obj k')"
  by (simp add: get_prop_def)

lemma get_prop_Nil: "get_prop [] k = JUndefined"
  by (simp add: get_prop_def)

lemma get_prop_set_prop_same [simp]: "get_prop (set_prop k v obj) k = v"
  by (induction obj) (auto simp: get_prop_def)

lemma get_prop_set_prop_other [simp]:
  "k' \<noteq> k \<Longrightarrow> get_prop (set_prop k v obj) k' = get_prop obj k'"
  by (induction obj) (auto simp: get_prop_def)

lemma js_get_total: "js_get v k = Inr x \<Longrightarrow> \<exists>y. js_get v k' = Inr y"
  by (cases v) simp_all

lemma completion_events_append [simp]:
  "completion_events (xs @ ys) = completion_events xs + completion_events ys"
  by (simp add: completion_events_def dispatched_def)

lemma signing_calls_append [simp]:
  "signing_calls (xs @ ys) = signing_calls xs + signing_calls ys"
  by (simp add: signing_calls_def)

subsection \<open>Rules for \<open>adds\<close>\<close>

lemma adds_emitted: "adds Q m \<Longrightarrow> Q (emitted s (snd (m s)))"
  unfolding adds_def emitted_def
proof -
  assume "\<forall>s. \<exists>d. trace (snd (m s)) = trace s @ d \<and> Q d"
  then obtain d where "trace (snd (m s)) = trace s @ d" and "Q d" by blast
  then show "Q (drop (length (trace s)) (trace (snd (m s))))" by simp
qed

lemma adds_weaken: "adds P m \<Longrightarrow> (\<And>d. P d \<Longrightarrow> Q d) \<Longrightarrow> adds Q m"
  unfolding adds_def by blast

lemma adds_ret: "Q [] \<Longrightarrow> adds Q (ret x)"
  by (simp add: adds_def ret_def)

lemma adds_throw: "Q [] \<Longrightarrow> adds Q (throw e)"
  by (simp add: adds_def throw_def)

lemma adds_pure: "Q [] \<Longrightarrow> adds Q (pure r)"
  by (simp add: adds_def pure_def)

lemma adds_query: "Q [] \<Longrightarrow> adds Q (query q)"
  by (simp add: adds_def query_def)

lemma adds_invoke: "Q [c] \<Longrightarrow> adds Q (invoke c f)"
  by (simp add: adds_def invoke_def split: prod.splits)

lemma adds_dispatchEvent:
  "Q [DispatchEvent p name data] \<Longrightarrow> adds Q (dispatchEvent p name data)"
  by (simp add: adds_def dispatchEvent_def)

lemma adds_if: "(b \<Longrightarrow> adds Q m) \<Longrightarrow> (\<not> b \<Longrightarrow> adds Q n) \<Longrightarrow> adds Q (if b then m else n)"
  by simp

lemma adds_bnd:
  assumes m: "adds P m" and f: "\<And>x. adds R (f x)"
    and stop: "\<And>d. P d \<Longrightarrow> Q d" and go: "\<And>d1 d2. P d1 \<Longrightarrow> R d2 \<Longrightarrow> Q (d1 @ d2)"
  shows "adds Q (bnd m f)"
  unfolding adds_def
proof
  fix s
  obtain r s1 where ms: "m s = (r, s1)" by (cases "m s")
  from m obtain d1 where d1: "trace s1 = trace s @ d1" "P d1"
    unfolding adds_def using ms by (metis snd_conv)
  show "\<exists>d. trace (snd (bnd m f s)) = trace s @ d \<and> Q d"
  proof (cases r)
    case (Inl e)
    then show ?thesis using ms d1 stop by (simp add: bnd_def)
  next
    case (Inr x)
    from f obtain d2 where d2: "trace (snd (f x s1)) = trace s1 @ d2" "R d2"
      unfolding adds_def by blast
    then show ?thesis using Inr ms d1 go by (simp add: bnd_def)
  qed
qed

lemma adds_try_catch:
  assumes m: "adds P m" and h: "\<And>e. adds R (h e)"
    and ok: "\<And>d. P d \<Longrightarrow> Q d" and caught: "\<And>d1 d2. P d1 \<Longrightarrow> R d2 \<Longrightarrow> Q (d1 @ d2)"
  shows "adds Q (try_catch m h)"
  unfolding adds_def
proof
  fix s
  obtain r s1 where ms: "m s = (r, s1)" by (cases "m s")
  from m obtain d1 where d1: "trace s1 = trace s @ d1" "P d1"
    unfolding adds_def using ms by (metis snd_conv)
  show "\<exists>d. trace (snd (try_catch m h s)) = trace s @ d \<and> Q d"
  proof (cases r)
    case (Inr x)
    then show ?thesis using ms d1 ok by (simp add: try_catch_def)
  next
    case (Inl e)
    from h obtain d2 where d2: "trace (snd (h e s1)) = trace s1 @ d2" "R d2"
      unfolding adds_def by blast
    then show ?thesis using Inl ms d1 caught by (simp add: try_catch_def)
  qed
qed

lemma adds_try_finally:
  assumes m: "adds P m" and fin: "adds R fin"
    and both: "\<And>d1 d2. P d1 \<Longrightarrow> R d2 \<Longrightarrow> Q (d1 @ d2)"
  shows "adds Q (try_finally m fin)"
  unfolding adds_def
proof
  fix s
  obtain r s1 where ms: "m s = (r, s1)" by (cases "m s")
  from m obtain d1 where d1: "trace s1 = trace s @ d1" "P d1"
    unfolding adds_def using ms by (metis snd_conv)
  from fin obtain d2 where d2: "trace (snd (fin s1)) = trace s1 @ d2" "R d2"
    unfolding adds_def by blast
  obtain r2 s2 where fs: "fin s1 = (r2, s2)" by (cases "fin s1")
  have "trace (snd (try_finally m fin s)) = trace s @ (d1 @ d2)"
    using ms fs d1 d2 by (cases r2) (simp_all add: try_finally_def)
  then show "\<exists>d. trace (snd (try_finally m fin s)) = trace s @ d \<and> Q d"
    using both d1 d2 by blast
qed

text \<open>Steps that add neither a completion event nor a signing call.\<close>

lemma silent_Nil: "silent []"
  by (simp add: silent_def completion_events_def signing_calls_def dispatched_def)

lemma silent_ret: "adds silent (ret x)"
  by (simp add: adds_ret silent_Nil)

lemma silent_throw: "adds silent (throw e)"
  by (simp add: adds_throw silent_Nil)

lemma silent_pure: "adds silent (pure r)"
  by (simp add: adds_pure silent_Nil)

lemma silent_query: "adds silent (query q)"
  by (simp add: adds_query silent_Nil)

lemma silent_waitApprove: "adds silent (invoke (WaitApprove env url type data) f)"
  by (rule adds_invoke)
     (simp add: silent_def completion_events_def signing_calls_def dispatched_def)

lemma silent_request: "adds silent (invoke (RpcRequest rpc method params) f)"
  by (rule adds_invoke)
     (simp add: silent_def completion_events_def signing_calls_def dispatched_def)

lemma silent_keyRingOp: "adds silent (invoke (KeyRingOp name) f)"
  by (rule adds_invoke)
     (simp add: silent_def completion_events_def signing_calls_def dispatched_def)

lemma silent_bnd: "adds silent m \<Longrightarrow> (\<And>x. adds silent (f x)) \<Longrightarrow> adds silent (bnd m f)"
  by (rule adds_bnd [where P = silent and R = silent]) (simp_all add: silent_def)

lemma silent_try_catch:
  "adds silent m \<Longrightarrow> (\<And>e. adds silent (h e)) \<Longrightarrow> adds silent (try_catch m h)"
  by (rule adds_try_catch [where P = silent and R = silent]) (simp_all add: silent_def)

lemmas silent_intros = silent_bnd silent_try_catch silent_ret silent_throw silent_pure
  silent_query silent_waitApprove silent_request silent_keyRingOp adds_if

text \<open>The signing step and the \<open>finally\<close> block after it.\<close>

lemma signed_once_sign:
  "adds signed_once (invoke (KeyRingSign env chainId coinType message) f)"
  by (rule adds_invoke)
     (simp add: signed_once_def completion_events_def signing_calls_def dispatched_def)

lemma signed_once_broadcast:
  "adds signed_once (invoke (KeyRingSignAndBroadcastEthereum chainId coinType rpc data) f)"
  by (rule adds_invoke)
     (simp add: signed_once_def completion_events_def signing_calls_def dispatched_def)

lemma signed_once_bnd:
  "adds signed_once m \<Longrightarrow> (\<And>x. adds silent (f x)) \<Longrightarrow> adds signed_once (bnd m f)"
  by (rule adds_bnd [where P = signed_once and R = silent])
     (simp_all add: signed_once_def silent_def)

lemma signed_once_try_catch:
  "adds signed_once m \<Longrightarrow> (\<And>e. adds silent (h e)) \<Longrightarrow> adds signed_once (try_catch m h)"
  by (rule adds_try_catch [where P = signed_once and R = silent])
     (simp_all add: signed_once_def silent_def)

lemma ended_dispatch_end: "adds ended (dispatchEvent APP_PORT ''request-sign-end'' data)"
  by (rule adds_dispatchEvent)
     (simp add: ended_def completion_events_def signing_calls_def dispatched_def)

lemma ended_dispatch_ethereum_end:
  "adds ended (dispatchEvent APP_PORT ''request-sign-ethereum-end'' data)"
  by (rule adds_dispatchEvent)
     (simp add: ended_def completion_events_def signing_calls_def dispatched_def)

lemma balanced_try_finally:
  "adds signed_once m \<Longrightarrow> adds ended fin \<Longrightarrow> adds balanced (try_finally m fin)"
  by (rule adds_try_finally [where P = signed_once and R = ended])
     (simp_all add: signed_once_def ended_def balanced_def)

lemma balanced_bnd:
  "adds silent m \<Longrightarrow> (\<And>x. adds balanced (f x)) \<Longrightarrow> adds balanced (bnd m f)"
  by (rule adds_bnd [where P = silent and R = balanced])
     (simp_all add: silent_def balanced_def)

lemma balanced_throw: "adds balanced (throw e)"
  by (rule adds_weaken [OF silent_throw]) (simp add: silent_def balanced_def)

lemma once_try_finally:
  "adds silent m \<Longrightarrow> adds ended fin \<Longrightarrow> adds once (try_finally m fin)"
  by (rule adds_try_finally [where P = silent and R = ended])
     (simp_all add: silent_def ended_def once_def)

subsection \<open>Completion events of the signing requests\<close>

lemma estimateFeeAndWaitApprove_silent:
  "adds silent (estimateFeeAndWaitApprove c env chainId rpc data)"
  unfolding estimateFeeAndWaitApprove_def Let_def
  by (intro silent_intros)

lemma requestSignAmino_balanced:
  "adds balanced (requestSignAmino c env msgOrigin chainId signer signDoc signOptions)"
  unfolding requestSignAmino_def Let_def
  by (intro balanced_bnd adds_if balanced_throw balanced_try_finally signed_once_bnd
        signed_once_sign ended_dispatch_end silent_intros)

lemma requestSignDirect_balanced:
  "adds balanced (requestSignDirect c env msgOrigin chainId signer signDoc signOptions)"
  unfolding requestSignDirect_def Let_def
  by (intro balanced_bnd adds_if balanced_throw balanced_try_finally signed_once_bnd
        signed_once_try_catch signed_once_sign ended_dispatch_end silent_intros)

lemma requestSignEthereum_balanced:
  "adds balanced (requestSignEthereum c env chainId data)"
  unfolding requestSignEthereum_def Let_def
  by (intro balanced_bnd balanced_try_finally signed_once_broadcast
        ended_dispatch_ethereum_end estimateFeeAndWaitApprove_silent silent_intros)

lemma requestSignEthereumTypedData_once:
  "adds once (requestSignEthereumTypedData c env chainId data)"
  unfolding requestSignEthereumTypedData_def
  by (intro once_try_finally ended_dispatch_end silent_intros)

lemma requestSignProxyDecryptionData_once:
  "adds once (requestSignProxyDecryptionData c env chainId data)"
  unfolding requestSignProxyDecryptionData_def Let_def
  by (intro once_try_finally ended_dispatch_ethereum_end estimateFeeAndWaitApprove_silent
        silent_intros)

lemma requestSignProxyReEncryptionData_once:
  "adds once (requestSignProxyReEncryptionData c env chainId data)"
  unfolding requestSignProxyReEncryptionData_def Let_def
  by (intro once_try_finally ended_dispatch_ethereum_end estimateFeeAndWaitApprove_silent
        silent_intros)

section \<open>The claims\<close>

subsection \<open>Signer check before approval\<close>

text \<open>
  C2. In \<open>requestSignAmino\<close> and \<open>requestSignDirect\<close>, once the coin type, the key, the
  chain information and the bech32 address of the active key have been obtained, a
  caller-asserted signer different from that address makes the call fail with
  \<open>Signer mismatched\<close>, in the state it started from: nothing has been appended to the
  trace, so the approval collaborator has not been called.
\<close>

theorem signer_mismatch_before_approval:
  assumes "getChainCoinType c chainId (world s) = Inr coinType"
    and "keyRing_getKey c chainId coinType (world s) = Inr key"
    and "getChainInfo c chainId (world s) = Inr chainInfo"
    and "toBech32 c (address key) (bech32PrefixAccAddr chainInfo) = Inr bech32Address"
    and "signer \<noteq> bech32Address"
  shows "requestSignAmino c env msgOrigin chainId signer signDoc signOptions s =
           (Inl (Error ''Signer mismatched''), s)
       \<and> requestSignDirect c env msgOrigin chainId signer directSignDoc signOptions s =
           (Inl (Error ''Signer mismatched''), s)
       \<and> filter is_waitApprove (emitted s
           (snd (requestSignAmino c env msgOrigin chainId signer signDoc signOptions s))) = []
       \<and> filter is_waitApprove (emitted s
           (snd (requestSignDirect c env msgOrigin chainId signer directSignDoc signOptions s))) = []"
  using assms
  by (simp add: requestSignAmino_def requestSignDirect_def prog_defs Let_def emitted_def)

theorem signer_mismatch_before_approval_witness:
  "requestSignAmino sample JNull ''https://dapp.example'' ''cosmoshub-4'' ''cosmos1abc''
     (send_doc ''cosmos1abc'' ''cosmos1def'') (JObj []) sample_s =
     (Inl (Error ''Signer mismatched''), sample_s)
   \<and> requestSignDirect sample JNull ''https://dapp.example'' ''cosmoshub-4'' ''cosmos1abc''
     (JBytes [10, 0]) (JObj []) sample_s =
     (Inl (Error ''Signer mismatched''), sample_s)"
proof -
  have coinType: "getChainCoinType sample ''cosmoshub-4'' (world sample_s) = Inr 118"
    by (simp add: sample_def)
  have key: "keyRing_getKey sample ''cosmoshub-4'' 118 (world sample_s) = Inr sample_key"
    by (simp add: sample_def sample_s_def sample_w_def)
  have chainInfo: "getChainInfo sample ''cosmoshub-4'' (world sample_s) = Inr sample_chainInfo"
    by (simp add: sample_def)
  have bech32: "toBech32 sample (address sample_key) (bech32PrefixAccAddr sample_chainInfo)
      = Inr ''cosmos1xyz''"
    by (simp add: sample_def sample_chainInfo_def)
  have differ: "''cosmos1abc'' \<noteq> ''cosmos1xyz''"
    by simp
  from signer_mismatch_before_approval [OF coinType key chainInfo bech32 differ]
  show ?thesis by blast
qed

subsection \<open>The checks after approval\<close>

text \<open>Before approval, an ADR-36 document whose embedded signer is not the asserted one
  is refused, and approval is not asked for.\<close>

lemma unmatched_signer_before_approval:
  assumes "getChainCoinType c chainId (world s) = Inr coinType"
    and "keyRing_getKey c chainId coinType (world s) = Inr key"
    and "getChainInfo c chainId (world s) = Inr chainInfo"
    and "toBech32 c (address key) (bech32PrefixAccAddr chainInfo) = Inr signer"
    and "checkAndValidateADR36AminoSignDoc c signDoc (bech32PrefixAccAddr chainInfo) = Inr True"
    and "signDoc_msgs0_value_signer signDoc = Inr docSigner"
    and "docSigner \<noteq> JStr signer"
  shows "requestSignAmino c env msgOrigin chainId signer signDoc signOptions s =
           (Inl (OWalletError ''keyring'' 233 ''Unmatched signer in sign doc''), s)"
  using assms by (simp add: requestSignAmino_def prog_defs Let_def)

text \<open>
  C1. After approval the method classifies \<open>signDoc\<close>, the document it was called with,
  a second time, and never looks at \<open>newSignDoc\<close>, the document that the approval step
  returned. On the sample world a request that shows an ADR-36 message to the user and
  is answered with a bank transfer therefore does not fail: the transfer is signed and
  returned, and the trace holds the signing call.
\<close>

theorem requestSignAmino_signs_reclassified_payload:
  "requestSignAmino sample JNull ''https://dapp.example'' ''cosmoshub-4'' ''cosmos1xyz''
     (adr36_doc ''cosmos1xyz'' ''aGVsbG8='') (JObj [])
     (sample_s\<lparr>world := sample_w\<lparr>sw_approval := Inr (send_doc ''cosmos1xyz'' ''cosmos1evil'')\<rparr>\<rparr>)
   = (Inr \<lparr>signed = send_doc ''cosmos1xyz'' ''cosmos1evil'',
            sig = \<lparr>pub_key_type = ''tendermint/PubKeySecp256k1'', pub_key_value = ''AA'',
                   signature = ''AA''\<rparr>\<rparr>,
      \<lparr>world = sample_w\<lparr>sw_approval := Inr (send_doc ''cosmos1xyz'' ''cosmos1evil'')\<rparr>,
       trace = [
         WaitApprove JNull ''/sign'' ''request-sign'' (JObj [
           (''msgOrigin'', JStr ''https://dapp.example''),
           (''chainId'', JStr ''cosmoshub-4''),
           (''mode'', JStr ''amino''),
           (''signDoc'', adr36_doc ''cosmos1xyz'' ''aGVsbG8=''),
           (''signer'', JStr ''cosmos1xyz''),
           (''signOptions'', JObj []),
           (''isADR36SignDoc'', JBool True),
           (''isADR36WithString'', JUndefined)]),
         KeyRingSign JNull ''cosmoshub-4'' 118 [1],
         DispatchEvent APP_PORT ''request-sign-end'' (JObj [])]\<rparr>)"
  by (simp add: requestSignAmino_def prog_defs sample_defs Let_def
        signDoc_msgs0_value_signer_def sbind_def get_prop_def)

text \<open>
  C3. For the same reason the signer embedded in the returned document is not compared
  with the asserted signer: on the sample world an ADR-36 request for \<open>cosmos1xyz\<close> that
  is answered with an ADR-36 document whose embedded signer is \<open>cosmos1evil\<close> is signed
  and returned.
\<close>

theorem requestSignAmino_signs_changed_embedded_signer:
  "requestSignAmino sample JNull ''https://dapp.example'' ''cosmoshub-4'' ''cosmos1xyz''
     (adr36_doc ''cosmos1xyz'' ''aGVsbG8='') (JObj [])
     (sample_s\<lparr>world := sample_w\<lparr>sw_approval := Inr (adr36_doc ''cosmos1evil'' ''aGVsbG8='')\<rparr>\<rparr>)
   = (Inr \<lparr>signed = adr36_doc ''cosmos1evil'' ''aGVsbG8='',
            sig = \<lparr>pub_key_type = ''tendermint/PubKeySecp256k1'', pub_key_value = ''AA'',
                   signature = ''AA''\<rparr>\<rparr>,
      \<lparr>world = sample_w\<lparr>sw_approval := Inr (adr36_doc ''cosmos1evil'' ''aGVsbG8='')\<rparr>,
       trace = [
         WaitApprove JNull ''/sign'' ''request-sign'' (JObj [
           (''msgOrigin'', JStr ''https://dapp.example''),
           (''chainId'', JStr ''cosmoshub-4''),
           (''mode'', JStr ''amino''),
           (''signDoc'', adr36_doc ''cosmos1xyz'' ''aGVsbG8=''),
           (''signer'', JStr ''cosmos1xyz''),
           (''signOptions'', JObj []),
           (''isADR36SignDoc'', JBool True),
           (''isADR36WithString'', JUndefined)]),
         KeyRingSign JNull ''cosmoshub-4'' 118 [54],
         DispatchEvent APP_PORT ''request-sign-end'' (JObj [])]\<rparr>)
   \<and> signDoc_msgs0_value_signer (adr36_doc ''cosmos1evil'' ''aGVsbG8='') = Inr (JStr ''cosmos1evil'')"
  by (simp add: requestSignAmino_def prog_defs sample_defs Let_def
        signDoc_msgs0_value_signer_def sbind_def get_prop_def)

subsection \<open>Completion events\<close>

text \<open>
  C4. \<open>requestSignAmino\<close>, \<open>requestSignDirect\<close> and \<open>requestSignEthereum\<close> put only the
  signing call inside \<open>try\<close> and \<open>finally\<close>, so a call that ends before it emits no
  completion event, although the proxy methods, which have the same flow, dispatch on
  every path. On the sample world: \<open>requestSignAmino\<close> with a mismatched signer fails
  and leaves the trace as it was; \<open>requestSignDirect\<close>, once the user has approved with
  an answer that \<open>SignDoc.decode\<close> refuses, fails after the approval call alone;
  \<open>requestSignEthereum\<close>, when the user rejects the request, fails after the two RPC
  queries and the approval call. None of the three runs holds a completion event.
\<close>

theorem completion_event_missing_on_early_exit:
  "requestSignAmino sample JNull ''https://dapp.example'' ''cosmoshub-4'' ''cosmos1abc''
      (send_doc ''cosmos1abc'' ''cosmos1def'') (JObj []) sample_s
     = (Inl (Error ''Signer mismatched''), sample_s)
   \<and> completion_events (emitted sample_s
       (snd (requestSignAmino sample JNull ''https://dapp.example'' ''cosmoshub-4'' ''cosmos1abc''
          (send_doc ''cosmos1abc'' ''cosmos1def'') (JObj []) sample_s))) = 0
   \<and> requestSignDirect sample JNull ''https://dapp.example'' ''cosmoshub-4'' ''cosmos1xyz''
        (JBytes [10, 0]) (JObj []) (sample_s\<lparr>world := sample_w\<lparr>sw_approval := Inr JNull\<rparr>\<rparr>)
     = (Inl TypeError,
        \<lparr>world = sample_w\<lparr>sw_approval := Inr JNull\<rparr>,
         trace = [WaitApprove JNull ''/sign'' ''request-sign'' (JObj [
           (''msgOrigin'', JStr ''https://dapp.example''),
           (''chainId'', JStr ''cosmoshub-4''),
           (''mode'', JStr ''direct''),
           (''signDocBytes'', JBytes [1]),
           (''signer'', JStr ''cosmos1xyz''),
           (''signOptions'', JObj [])])]\<rparr>)
   \<and> completion_events (emitted (sample_s\<lparr>world := sample_w\<lparr>sw_approval := Inr JNull\<rparr>\<rparr>)
       (snd (requestSignDirect sample JNull ''https://dapp.example'' ''cosmoshub-4''
          ''cosmos1xyz'' (JBytes [10, 0]) (JObj [])
          (sample_s\<lparr>world := sample_w\<lparr>sw_approval := Inr JNull\<rparr>\<rparr>)))) = 0
   \<and> requestSignEthereum sample JNull ''cosmoshub-4'' [(''to'', JStr ''0x01'')] sample_s
     = (Inl (Error ''Request rejected''),
        \<lparr>world = sample_w,
         trace = [
           RpcRequest ''https://rpc.example'' ''eth_gasPrice'' [],
           RpcRequest ''https://rpc.example'' ''eth_estimateGas''
             [JObj [(''to'', JStr ''0x01''), (''maxFeePerGas'', JUndefined),
                    (''maxPriorityFeePerGas'', JUndefined)]],
           WaitApprove JNull ''/sign'' ''request-sign-ethereum''
             (sign_ethereum_payload JNull ''cosmoshub-4'' [(''to'', JStr ''0x01'')] (JNum 6)
                (JStr ''0x3b9aca00'') (JStr ''0x5028''))]\<rparr>)
   \<and> completion_events (emitted sample_s
       (snd (requestSignEthereum sample JNull ''cosmoshub-4'' [(''to'', JStr ''0x01'')] sample_s)))
     = 0"
  by (simp add: requestSignAmino_def requestSignDirect_def requestSignEthereum_def
        estimateFeeAndWaitApprove_def prog_defs sample_defs Let_def emitted_def
        completion_events_def dispatched_def feeCurrencies0_coinDecimals_def)

text \<open>What the code does on all inputs: the three methods above emit as many completion
  events as they make signing calls to the keyring, and at most one; the typed-data and
  proxy methods emit exactly one completion event on every path.\<close>

lemma completion_events_match_signing_calls:
  "completion_events (emitted s
       (snd (requestSignAmino c env msgOrigin chainId signer signDoc signOptions s)))
     = signing_calls (emitted s
       (snd (requestSignAmino c env msgOrigin chainId signer signDoc signOptions s)))
   \<and> signing_calls (emitted s
       (snd (requestSignAmino c env msgOrigin chainId signer signDoc signOptions s))) \<le> 1
   \<and> completion_events (emitted s
       (snd (requestSignDirect c env msgOrigin chainId signer directSignDoc signOptions s)))
     = signing_calls (emitted s
       (snd (requestSignDirect c env msgOrigin chainId signer directSignDoc signOptions s)))
   \<and> signing_calls (emitted s
       (snd (requestSignDirect c env msgOrigin chainId signer directSignDoc signOptions s))) \<le> 1
   \<and> completion_events (emitted s (snd (requestSignEthereum c env chainId data s)))
     = signing_calls (emitted s (snd (requestSignEthereum c env chainId data s)))
   \<and> signing_calls (emitted s (snd (requestSignEthereum c env chainId data s))) \<le> 1
   \<and> completion_events (emitted s (snd (requestSignEthereumTypedData c env chainId typedData s)))
     = 1
   \<and> completion_events (emitted s (snd (requestSignProxyDecryptionData c env chainId data s)))
     = 1
   \<and> completion_events (emitted s (snd (requestSignProxyReEncryptionData c env chainId data s)))
     = 1"
proof -
  have amino: "balanced (emitted s
      (snd (requestSignAmino c env msgOrigin chainId signer signDoc signOptions s)))"
    by (rule adds_emitted [OF requestSignAmino_balanced])
  have direct: "balanced (emitted s
      (snd (requestSignDirect c env msgOrigin chainId signer directSignDoc signOptions s)))"
    by (rule adds_emitted [OF requestSignDirect_balanced])
  have ethereum: "balanced (emitted s (snd (requestSignEthereum c env chainId data s)))"
    by (rule adds_emitted [OF requestSignEthereum_balanced])
  have typed: "once (emitted s (snd (requestSignEthereumTypedData c env chainId typedData s)))"
    by (rule adds_emitted [OF requestSignEthereumTypedData_once])
  have decrypt: "once (emitted s (snd (requestSignProxyDecryptionData c env chainId data s)))"
    by (rule adds_emitted [OF requestSignProxyDecryptionData_once])
  have reencrypt:
    "once (emitted s (snd (requestSignProxyReEncryptionData c env chainId data s)))"
    by (rule adds_emitted [OF requestSignProxyReEncryptionData_once])
  from amino direct ethereum typed decrypt reencrypt show ?thesis
    unfolding balanced_def once_def by blast
qed

subsection \<open>\<open>enable\<close>\<close>

text \<open>
  C5, as stated, fails where it says that \<open>enable\<close> returns a status after the user has
  cancelled the unlock: a cancelled approval is a rejected one, the rejection is not
  caught, and \<open>enable\<close> throws it. On the sample world, with a locked keyring and a user
  who rejects the request, \<open>enable\<close> ends in the exception \<open>Request rejected\<close>.
\<close>

theorem enable_throws_when_unlock_is_rejected:
  "enable sample JNull
     (sample_s\<lparr>world := sample_w\<lparr>sw_status := LOCKED, sw_after_approval := LOCKED\<rparr>\<rparr>)
   = (Inl (Error ''Request rejected''),
      \<lparr>world = sample_w\<lparr>sw_status := LOCKED, sw_after_approval := LOCKED\<rparr>,
       trace = [WaitApprove JNull ''/unlock'' ''unlock'' (JObj [])]\<rparr>)"
  by (simp add: enable_def prog_defs sample_defs)

text \<open>
  C5, amended. \<open>enable\<close> on an \<open>EMPTY\<close> keyring fails with error 261, \<open>key doesn't exist\<close>,
  and calls nobody. On a \<open>NOTLOADED\<close> keyring it restores first (and fails with the error
  of \<open>restore\<close> if that fails). If the status is then \<open>LOCKED\<close> it asks for the \<open>unlock\<close>
  approval at \<open>/unlock\<close>: when the approval resolves it answers the status of that
  moment, whatever it is; when the approval is rejected, as on a cancel, it fails with
  that rejection and answers no status. Otherwise it answers the status without asking
  for approval.
\<close>

theorem enable_gate:
  "(keyRing_status c (world s) = EMPTY \<longrightarrow>
      enable c env s = (Inl (OWalletError ''keyring'' 261 ''key doesn't exist''), s))
 \<and> (keyRing_status c (world s) = NOTLOADED \<and> keyRing_restore c (world s) = (Inr (), w1)
      \<and> keyRing_status c w1 = LOCKED
      \<and> waitApprove c env ''/unlock'' ''unlock'' (JObj []) w1 = (Inr v, w2) \<longrightarrow>
      enable c env s = (Inr (keyRing_status c w2),
        s\<lparr>world := w2, trace := trace s @ [KeyRingOp ''restore'',
             WaitApprove env ''/unlock'' ''unlock'' (JObj [])]\<rparr>))
 \<and> (keyRing_status c (world s) = NOTLOADED \<and> keyRing_restore c (world s) = (Inr (), w1)
      \<and> keyRing_status c w1 \<noteq> LOCKED \<longrightarrow>
      enable c env s = (Inr (keyRing_status c w1),
        s\<lparr>world := w1, trace := trace s @ [KeyRingOp ''restore'']\<rparr>))
 \<and> (keyRing_status c (world s) = LOCKED
      \<and> waitApprove c env ''/unlock'' ''unlock'' (JObj []) (world s) = (Inr v, w2) \<longrightarrow>
      enable c env s = (Inr (keyRing_status c w2),
        s\<lparr>world := w2, trace := trace s @ [WaitApprove env ''/unlock'' ''unlock'' (JObj [])]\<rparr>))
 \<and> (keyRing_status c (world s) = UNLOCKED \<longrightarrow> enable c env s = (Inr UNLOCKED, s))
 \<and> (keyRing_status c (world s) = LOCKED
      \<and> waitApprove c env ''/unlock'' ''unlock'' (JObj []) (world s) = (Inl e, w2) \<longrightarrow>
      enable c env s = (Inl e,
        s\<lparr>world := w2, trace := trace s @ [WaitApprove env ''/unlock'' ''unlock'' (JObj [])]\<rparr>))
 \<and> (keyRing_status c (world s) = NOTLOADED \<and> keyRing_restore c (world s) = (Inr (), w1)
      \<and> keyRing_status c w1 = LOCKED
      \<and> waitApprove c env ''/unlock'' ''unlock'' (JObj []) w1 = (Inl e, w2) \<longrightarrow>
      enable c env s = (Inl e,
        s\<lparr>world := w2, trace := trace s @ [KeyRingOp ''restore'',
             WaitApprove env ''/unlock'' ''unlock'' (JObj [])]\<rparr>))
 \<and> (keyRing_status c (world s) = NOTLOADED \<and> keyRing_restore c (world s) = (Inl e, w1) \<longrightarrow>
      enable c env s = (Inl e, s\<lparr>world := w1, trace := trace s @ [KeyRingOp ''restore'']\<rparr>))"
  by (simp add: enable_def prog_defs)

theorem enable_gate_witness:
  "enable sample JNull (sample_s\<lparr>world := sample_w\<lparr>sw_status := EMPTY\<rparr>\<rparr>) =
     (Inl (OWalletError ''keyring'' 261 ''key doesn't exist''),
      sample_s\<lparr>world := sample_w\<lparr>sw_status := EMPTY\<rparr>\<rparr>)
   \<and> enable sample JNull
       (sample_s\<lparr>world := sample_w\<lparr>sw_status := NOTLOADED, sw_approval := Inr (JObj [])\<rparr>\<rparr>) =
     (Inr UNLOCKED,
      \<lparr>world = sample_w\<lparr>sw_status := UNLOCKED, sw_approval := Inr (JObj [])\<rparr>,
       trace = [KeyRingOp ''restore'', WaitApprove JNull ''/unlock'' ''unlock'' (JObj [])]\<rparr>)
   \<and> enable sample JNull
       (sample_s\<lparr>world := sample_w\<lparr>sw_status := LOCKED, sw_approval := Inr (JObj [])\<rparr>\<rparr>) =
     (Inr UNLOCKED,
      \<lparr>world = sample_w\<lparr>sw_status := UNLOCKED, sw_approval := Inr (JObj [])\<rparr>,
       trace = [WaitApprove JNull ''/unlock'' ''unlock'' (JObj [])]\<rparr>)
   \<and> enable sample JNull sample_s = (Inr UNLOCKED, sample_s)
   \<and> enable sample JNull
       (sample_s\<lparr>world := sample_w\<lparr>sw_status := LOCKED, sw_after_approval := LOCKED\<rparr>\<rparr>) =
     (Inl (Error ''Request rejected''),
      \<lparr>world = sample_w\<lparr>sw_status := LOCKED, sw_after_approval := LOCKED\<rparr>,
       trace = [WaitApprove JNull ''/unlock'' ''unlock'' (JObj [])]\<rparr>)
   \<and> enable sample JNull
       (sample_s\<lparr>world := sample_w\<lparr>sw_status := NOTLOADED, sw_after_approval := LOCKED\<rparr>\<rparr>) =
     (Inl (Error ''Request rejected''),
      \<lparr>world = sample_w\<lparr>sw_status := LOCKED, sw_after_approval := LOCKED\<rparr>,
       trace = [KeyRingOp ''restore'', WaitApprove JNull ''/unlock'' ''unlock'' (JObj [])]\<rparr>)"
  using
    enable_gate [of sample "sample_s\<lparr>world := sample_w\<lparr>sw_status := EMPTY\<rparr>\<rparr>" JNull]
    enable_gate [of sample
      "sample_s\<lparr>world := sample_w\<lparr>sw_status := NOTLOADED, sw_approval := Inr (JObj [])\<rparr>\<rparr>"
      JNull "sample_w\<lparr>sw_status := LOCKED, sw_approval := Inr (JObj [])\<rparr>" "JObj []"
      "sample_w\<lparr>sw_status := UNLOCKED, sw_approval := Inr (JObj [])\<rparr>"]
    enable_gate [of sample
      "sample_s\<lparr>world := sample_w\<lparr>sw_status := LOCKED, sw_approval := Inr (JObj [])\<rparr>\<rparr>"
      JNull _ "JObj []"
      "sample_w\<lparr>sw_status := UNLOCKED, sw_approval := Inr (JObj [])\<rparr>"]
    enable_gate [of sample sample_s JNull]
    enable_gate [of sample
      "sample_s\<lparr>world := sample_w\<lparr>sw_status := LOCKED, sw_after_approval := LOCKED\<rparr>\<rparr>"
      JNull _ _
      "sample_w\<lparr>sw_status := LOCKED, sw_after_approval := LOCKED\<rparr>"
      "Error ''Request rejected''"]
    enable_gate [of sample
      "sample_s\<lparr>world := sample_w\<lparr>sw_status := NOTLOADED, sw_after_approval := LOCKED\<rparr>\<rparr>"
      JNull "sample_w\<lparr>sw_status := LOCKED, sw_after_approval := LOCKED\<rparr>" _
      "sample_w\<lparr>sw_status := LOCKED, sw_after_approval := LOCKED\<rparr>"
      "Error ''Request rejected''"]
  by (simp add: sample_def sample_s_def sample_w_def)

subsection \<open>Fee estimation\<close>

lemma approval_hints_payload:
  "approval_hints (WaitApprove env url type
      (sign_ethereum_payload env' chainId data decimals estimatedGasPrice estimatedGasLimit)) =
   Some (js_or (get_prop data ''gasPrice'') estimatedGasPrice,
         js_or (get_prop data ''gas'') estimatedGasLimit)"
  by (simp add: sign_ethereum_payload_def sbind_def get_prop_Cons)

text \<open>The whole run of \<open>estimateFeeAndWaitApprove\<close>, given what the collaborators answer:
  a failed gas estimate counts as \<open>0x5028\<close>.\<close>

lemma estimateFeeAndWaitApprove_run:
  assumes "getChainInfo c chainId (world s) = Inr chainInfo"
    and "feeCurrencies0_coinDecimals chainInfo = Inr decimals"
    and "request c rpc ''eth_gasPrice'' [] (world s) = (Inr estimatedGasPrice, w1)"
    and "request c rpc ''eth_estimateGas''
           [JObj (set_prop ''maxPriorityFeePerGas'' JUndefined
                   (set_prop ''maxFeePerGas'' JUndefined data))] w1 = (estimate, w2)"
    and "estimatedGasLimit = (case estimate of Inl e \<Rightarrow> JStr ''0x5028'' | Inr g \<Rightarrow> g)"
    and "waitApprove c env ''/sign'' ''request-sign-ethereum''
           (sign_ethereum_payload env chainId data decimals estimatedGasPrice estimatedGasLimit) w2
         = (answer, w3)"
  shows "estimateFeeAndWaitApprove c env chainId rpc data s =
     (sbind answer (merge_approved data),
      s\<lparr>world := w3,
        trace := trace s @ [
          RpcRequest rpc ''eth_gasPrice'' [],
          RpcRequest rpc ''eth_estimateGas''
            [JObj (set_prop ''maxPriorityFeePerGas'' JUndefined
                    (set_prop ''maxFeePerGas'' JUndefined data))],
          WaitApprove env ''/sign'' ''request-sign-ethereum''
            (sign_ethereum_payload env chainId data decimals estimatedGasPrice
               estimatedGasLimit)]\<rparr>)"
  using assms
  by (cases estimate; cases answer)
     (simp_all add: estimateFeeAndWaitApprove_def prog_defs Let_def sbind_def)

text \<open>
  C6. When the chain information and the gas price have been obtained and the
  \<open>eth_estimateGas\<close> query throws, \<open>estimateFeeAndWaitApprove\<close> goes on to the approval
  step with \<open>0x5028\<close> as the estimated gas limit (shown unless the caller's \<open>gas\<close> field
  takes its place), and its outcome is that of the approval step and of the merge of
  its answer: the error of the query is dropped.
\<close>

theorem estimateGas_failure_is_recovered:
  assumes "getChainInfo c chainId (world s) = Inr chainInfo"
    and "feeCurrencies0_coinDecimals chainInfo = Inr decimals"
    and "request c rpc ''eth_gasPrice'' [] (world s) = (Inr estimatedGasPrice, w1)"
    and "request c rpc ''eth_estimateGas''
           [JObj (set_prop ''maxPriorityFeePerGas'' JUndefined
                   (set_prop ''maxFeePerGas'' JUndefined data))] w1 = (Inl err, w2)"
    and "waitApprove c env ''/sign'' ''request-sign-ethereum''
           (sign_ethereum_payload env chainId data decimals estimatedGasPrice (JStr ''0x5028'')) w2
         = (answer, w3)"
  shows "estimateFeeAndWaitApprove c env chainId rpc data s =
     (sbind answer (merge_approved data),
      s\<lparr>world := w3,
        trace := trace s @ [
          RpcRequest rpc ''eth_gasPrice'' [],
          RpcRequest rpc ''eth_estimateGas''
            [JObj (set_prop ''maxPriorityFeePerGas'' JUndefined
                    (set_prop ''maxFeePerGas'' JUndefined data))],
          WaitApprove env ''/sign'' ''request-sign-ethereum''
            (sign_ethereum_payload env chainId data decimals estimatedGasPrice
               (JStr ''0x5028''))]\<rparr>)
    \<and> map approval_hints
        (filter is_waitApprove
           (emitted s (snd (estimateFeeAndWaitApprove c env chainId rpc data s))))
      = [Some (js_or (get_prop data ''gasPrice'') estimatedGasPrice,
               js_or (get_prop data ''gas'') (JStr ''0x5028''))]"
proof -
  have run: "estimateFeeAndWaitApprove c env chainId rpc data s =
     (sbind answer (merge_approved data),
      s\<lparr>world := w3,
        trace := trace s @ [
          RpcRequest rpc ''eth_gasPrice'' [],
          RpcRequest rpc ''eth_estimateGas''
            [JObj (set_prop ''maxPriorityFeePerGas'' JUndefined
                    (set_prop ''maxFeePerGas'' JUndefined data))],
          WaitApprove env ''/sign'' ''request-sign-ethereum''
            (sign_ethereum_payload env chainId data decimals estimatedGasPrice
               (JStr ''0x5028''))]\<rparr>)"
    by (rule estimateFeeAndWaitApprove_run [OF assms(1-4) _ assms(5)]) simp
  show ?thesis
    unfolding run by (simp add: emitted_def approval_hints_payload del: approval_hints.simps)
qed

theorem estimateGas_failure_is_recovered_witness:
  "fst (estimateFeeAndWaitApprove sample JNull ''oraichain-evm'' ''https://rpc.example''
          [(''to'', JStr ''0x01'')]
          (sample_s\<lparr>world := sample_w\<lparr>sw_approval := Inr (JObj [(''gasLimit'', JStr ''0x5208'')])\<rparr>\<rparr>))
     = Inr [(''to'', JStr ''0x01''), (''gasPrice'', JStr ''0x0''), (''gasLimit'', JStr ''0x5208''),
            (''memo'', JStr []), (''fees'', JUndefined)]
   \<and> map approval_hints (filter is_waitApprove
        (emitted
          (sample_s\<lparr>world := sample_w\<lparr>sw_approval := Inr (JObj [(''gasLimit'', JStr ''0x5208'')])\<rparr>\<rparr>)
          (snd (estimateFeeAndWaitApprove sample JNull ''oraichain-evm'' ''https://rpc.example''
             [(''to'', JStr ''0x01'')]
             (sample_s\<lparr>world := sample_w\<lparr>sw_approval := Inr (JObj [(''gasLimit'', JStr ''0x5208'')])\<rparr>\<rparr>)))))
     = [Some (JStr ''0x3b9aca00'', JStr ''0x5028'')]"
proof -
  let ?w = "sample_w\<lparr>sw_approval := Inr (JObj [(''gasLimit'', JStr ''0x5208'')])\<rparr>"
  let ?s = "sample_s\<lparr>world := ?w\<rparr>"
  let ?data = "[(''to'', JStr ''0x01'')]"
  have chainInfo: "getChainInfo sample ''oraichain-evm'' (world ?s) = Inr sample_chainInfo"
    by (simp add: sample_def)
  have decimals: "feeCurrencies0_coinDecimals sample_chainInfo = Inr (JNum 6)"
    by (simp add: feeCurrencies0_coinDecimals_def sample_chainInfo_def)
  have gasPrice: "request sample ''https://rpc.example'' ''eth_gasPrice'' [] (world ?s)
      = (Inr (JStr ''0x3b9aca00''), ?w)"
    by (simp add: sample_def)
  have estimate: "request sample ''https://rpc.example'' ''eth_estimateGas''
      [JObj (set_prop ''maxPriorityFeePerGas'' JUndefined
               (set_prop ''maxFeePerGas'' JUndefined ?data))] ?w
      = (Inl (Error ''execution reverted''), ?w)"
    by (simp add: sample_def sample_w_def)
  have approve: "waitApprove sample JNull ''/sign'' ''request-sign-ethereum''
      (sign_ethereum_payload JNull ''oraichain-evm'' ?data (JNum 6) (JStr ''0x3b9aca00'')
         (JStr ''0x5028'')) ?w
      = (Inr (JObj [(''gasLimit'', JStr ''0x5208'')]), ?w)"
    by (simp add: sample_def sample_w_def)
  note recovered =
    estimateGas_failure_is_recovered [OF chainInfo decimals gasPrice estimate approve]
  have result: "fst (estimateFeeAndWaitApprove sample JNull ''oraichain-evm''
      ''https://rpc.example'' ?data ?s)
    = Inr [(''to'', JStr ''0x01''), (''gasPrice'', JStr ''0x0''), (''gasLimit'', JStr ''0x5208''),
           (''memo'', JStr []), (''fees'', JUndefined)]"
    unfolding conjunct1 [OF recovered]
    by (simp add: sbind_def merge_approved_def get_prop_Cons get_prop_Nil js_nullish_or_def)
  have hints: "map approval_hints (filter is_waitApprove
      (emitted ?s (snd (estimateFeeAndWaitApprove sample JNull ''oraichain-evm''
         ''https://rpc.example'' ?data ?s))))
    = [Some (JStr ''0x3b9aca00'', JStr ''0x5028'')]"
    unfolding conjunct2 [OF recovered]
    by (simp add: get_prop_Cons get_prop_Nil js_or_def)
  from result hints show ?thesis by (rule conjI)
qed

text \<open>
  C7, as stated, fails for a field that is present but counts as false (\<open>0\<close>, the empty
  string, \<open>false\<close>, \<open>null\<close>): the hint is then the estimate. On the sample world a
  transaction with \<open>gasPrice: 0\<close> is shown with the gas price of the node.
\<close>

theorem falsy_gasPrice_is_replaced_by_estimate:
  "map_of [(''gasPrice'', JNum 0), (''gas'', JStr '''')] ''gasPrice'' = Some (JNum 0)
   \<and> map_of [(''gasPrice'', JNum 0), (''gas'', JStr '''')] ''gas'' = Some (JStr '''')
   \<and> map approval_hints (filter is_waitApprove
        (trace (snd (estimateFeeAndWaitApprove sample JNull ''oraichain-evm''
           ''https://rpc.example'' [(''gasPrice'', JNum 0), (''gas'', JStr '''')]
           (sample_s\<lparr>world := sample_w\<lparr>sw_estimateGas := Inr (JStr ''0x5208'')\<rparr>\<rparr>)))))
     = [Some (JStr ''0x3b9aca00'', JStr ''0x5208'')]"
  by (simp add: estimateFeeAndWaitApprove_def prog_defs sample_defs Let_def
        feeCurrencies0_coinDecimals_def sign_ethereum_payload_def sbind_def get_prop_Cons
        get_prop_Nil js_or_def)

text \<open>
  C7, amended. The hints shown to the approval step are the caller's \<open>gasPrice\<close> and
  \<open>gas\<close> fields when these are truthy (present and not \<open>0\<close>, the empty string, \<open>false\<close>
  or \<open>null\<close>), and the estimates otherwise. In the object returned after approval,
  \<open>gasPrice\<close> is \<open>0x0\<close> when the answer's \<open>gasPrice\<close> is \<open>undefined\<close> or \<open>null\<close>, and
  \<open>memo\<close> is the empty string when the answer's \<open>memo\<close> is \<open>undefined\<close> or \<open>null\<close>.
\<close>

theorem approval_hints_and_defaults:
  assumes "getChainInfo c chainId (world s) = Inr chainInfo"
    and "feeCurrencies0_coinDecimals chainInfo = Inr decimals"
    and "request c rpc ''eth_gasPrice'' [] (world s) = (Inr estimatedGasPrice, w1)"
    and "request c rpc ''eth_estimateGas''
           [JObj (set_prop ''maxPriorityFeePerGas'' JUndefined
                   (set_prop ''maxFeePerGas'' JUndefined data))] w1 = (Inr estimatedGasLimit, w2)"
    and "waitApprove c env ''/sign'' ''request-sign-ethereum''
           (sign_ethereum_payload env chainId data decimals estimatedGasPrice estimatedGasLimit) w2
         = (Inr approveData, w3)"
    and "js_get approveData ''gasPrice'' = Inr approved_gasPrice"
    and "js_get approveData ''memo'' = Inr approved_memo"
  shows "map approval_hints
        (filter is_waitApprove
           (emitted s (snd (estimateFeeAndWaitApprove c env chainId rpc data s))))
      = [Some (if truthy (get_prop data ''gasPrice'') then get_prop data ''gasPrice''
               else estimatedGasPrice,
               if truthy (get_prop data ''gas'') then get_prop data ''gas''
               else estimatedGasLimit)]
    \<and> (\<exists>newData. fst (estimateFeeAndWaitApprove c env chainId rpc data s) = Inr newData
          \<and> get_prop newData ''gasPrice'' =
              (if nullish approved_gasPrice then JStr ''0x0'' else approved_gasPrice)
          \<and> get_prop newData ''memo'' =
              (if nullish approved_memo then JStr [] else approved_memo))"
proof -
  have run: "estimateFeeAndWaitApprove c env chainId rpc data s =
     (sbind (Inr approveData) (merge_approved data),
      s\<lparr>world := w3,
        trace := trace s @ [
          RpcRequest rpc ''eth_gasPrice'' [],
          RpcRequest rpc ''eth_estimateGas''
            [JObj (set_prop ''maxPriorityFeePerGas'' JUndefined
                    (set_prop ''maxFeePerGas'' JUndefined data))],
          WaitApprove env ''/sign'' ''request-sign-ethereum''
            (sign_ethereum_payload env chainId data decimals estimatedGasPrice
               estimatedGasLimit)]\<rparr>)"
    by (rule estimateFeeAndWaitApprove_run [OF assms(1-4) _ assms(5)]) simp
  obtain gasLimit where gasLimit: "js_get approveData ''gasLimit'' = Inr gasLimit"
    using js_get_total [OF assms(6)] by blast
  obtain fees where fees: "js_get approveData ''fees'' = Inr fees"
    using js_get_total [OF assms(6)] by blast
  have hints: "map approval_hints
        (filter is_waitApprove
           (emitted s (snd (estimateFeeAndWaitApprove c env chainId rpc data s))))
      = [Some (if truthy (get_prop data ''gasPrice'') then get_prop data ''gasPrice''
               else estimatedGasPrice,
               if truthy (get_prop data ''gas'') then get_prop data ''gas''
               else estimatedGasLimit)]"
    unfolding run
    by (simp add: emitted_def approval_hints_payload js_or_def del: approval_hints.simps)
  have merged: "\<exists>newData. fst (estimateFeeAndWaitApprove c env chainId rpc data s) = Inr newData
          \<and> get_prop newData ''gasPrice'' =
              (if nullish approved_gasPrice then JStr ''0x0'' else approved_gasPrice)
          \<and> get_prop newData ''memo'' =
              (if nullish approved_memo then JStr [] else approved_memo)"
    unfolding run using assms(6,7) gasLimit fees
    by (simp add: sbind_def merge_approved_def Let_def js_nullish_or_def)
  from hints merged show ?thesis by blast
qed

theorem approval_hints_and_defaults_witness:
  "map approval_hints (filter is_waitApprove
      (emitted
        (sample_s\<lparr>world := sample_w\<lparr>sw_estimateGas := Inr (JStr ''0x5208''),
           sw_approval := Inr (JObj [(''memo'', JNull), (''gasLimit'', JStr ''0x7530'')])\<rparr>\<rparr>)
        (snd (estimateFeeAndWaitApprove sample JNull ''oraichain-evm'' ''https://rpc.example''
           [(''gas'', JStr ''0x7530'')]
           (sample_s\<lparr>world := sample_w\<lparr>sw_estimateGas := Inr (JStr ''0x5208''),
              sw_approval := Inr (JObj [(''memo'', JNull), (''gasLimit'', JStr ''0x7530'')])\<rparr>\<rparr>)))))
     = [Some (JStr ''0x3b9aca00'', JStr ''0x7530'')]
   \<and> (\<exists>newData.
        fst (estimateFeeAndWaitApprove sample JNull ''oraichain-evm'' ''https://rpc.example''
           [(''gas'', JStr ''0x7530'')]
           (sample_s\<lparr>world := sample_w\<lparr>sw_estimateGas := Inr (JStr ''0x5208''),
              sw_approval := Inr (JObj [(''memo'', JNull), (''gasLimit'', JStr ''0x7530'')])\<rparr>\<rparr>))
          = Inr newData
        \<and> get_prop newData ''gasPrice'' = JStr ''0x0''
        \<and> get_prop newData ''memo'' = JStr [])"
proof -
  let ?answer = "JObj [(''memo'', JNull), (''gasLimit'', JStr ''0x7530'')]"
  let ?w = "sample_w\<lparr>sw_estimateGas := Inr (JStr ''0x5208''), sw_approval := Inr ?answer\<rparr>"
  let ?s = "sample_s\<lparr>world := ?w\<rparr>"
  let ?data = "[(''gas'', JStr ''0x7530'')]"
  have chainInfo: "getChainInfo sample ''oraichain-evm'' (world ?s) = Inr sample_chainInfo"
    by (simp add: sample_def)
  have decimals: "feeCurrencies0_coinDecimals sample_chainInfo = Inr (JNum 6)"
    by (simp add: feeCurrencies0_coinDecimals_def sample_chainInfo_def)
  have gasPrice: "request sample ''https://rpc.example'' ''eth_gasPrice'' [] (world ?s)
      = (Inr (JStr ''0x3b9aca00''), ?w)"
    by (simp add: sample_def)
  have estimate: "request sample ''https://rpc.example'' ''eth_estimateGas''
      [JObj (set_prop ''maxPriorityFeePerGas'' JUndefined
               (set_prop ''maxFeePerGas'' JUndefined ?data))] ?w
      = (Inr (JStr ''0x5208''), ?w)"
    by (simp add: sample_def sample_w_def)
  have approve: "waitApprove sample JNull ''/sign'' ''request-sign-ethereum''
      (sign_ethereum_payload JNull ''oraichain-evm'' ?data (JNum 6) (JStr ''0x3b9aca00'')
         (JStr ''0x5208'')) ?w
      = (Inr ?answer, ?w)"
    by (simp add: sample_def sample_w_def)
  have answer_gasPrice: "js_get ?answer ''gasPrice'' = Inr JUndefined"
    by (simp add: get_prop_Cons get_prop_Nil)
  have answer_memo: "js_get ?answer ''memo'' = Inr JNull"
    by (simp add: get_prop_Cons get_prop_Nil)
  from approval_hints_and_defaults
    [OF chainInfo decimals gasPrice estimate approve answer_gasPrice answer_memo]
  show ?thesis
    by (simp add: get_prop_Cons get_prop_Nil)
qed

subsection \<open>\<open>setKeyStoreCoinType\<close>\<close>

text \<open>
  C8, as stated, fails when the keyring refuses the new coin type: the call to the
  keyring is not inside a \<open>try\<close>, so its error leaves the method before the dispatch.
  On the sample world the keyring refuses a coin type for a chain that has one, and
  refuses any while it is locked; in both cases a value different from the computed one
  is passed and no event is dispatched.
\<close>

theorem setKeyStoreCoinType_silent_when_keyring_refuses:
  "keyRing_computeKeyStoreCoinType sample ''cosmoshub-4'' 118
      (sample_w\<lparr>sw_coinType := Some 118\<rparr>) = Inr 118
   \<and> setKeyStoreCoinType sample ''cosmoshub-4'' 60
       (sample_s\<lparr>world := sample_w\<lparr>sw_coinType := Some 118\<rparr>\<rparr>)
     = (Inl (Error ''Coin type already set''),
        \<lparr>world = sample_w\<lparr>sw_coinType := Some 118\<rparr>,
         trace = [KeyRingOp ''setKeyStoreCoinType'']\<rparr>)
   \<and> dispatched WEBPAGE_PORT ''keystore-changed''
       (emitted (sample_s\<lparr>world := sample_w\<lparr>sw_coinType := Some 118\<rparr>\<rparr>)
         (snd (setKeyStoreCoinType sample ''cosmoshub-4'' 60
            (sample_s\<lparr>world := sample_w\<lparr>sw_coinType := Some 118\<rparr>\<rparr>)))) = 0
   \<and> setKeyStoreCoinType sample ''cosmoshub-4'' 60
       (sample_s\<lparr>world := sample_w\<lparr>sw_status := LOCKED\<rparr>\<rparr>)
     = (Inl (Error ''Key ring is not unlocked''),
        \<lparr>world = sample_w\<lparr>sw_status := LOCKED\<rparr>,
         trace = [KeyRingOp ''setKeyStoreCoinType'']\<rparr>)
   \<and> dispatched WEBPAGE_PORT ''keystore-changed''
       (emitted (sample_s\<lparr>world := sample_w\<lparr>sw_status := LOCKED\<rparr>\<rparr>)
         (snd (setKeyStoreCoinType sample ''cosmoshub-4'' 60
            (sample_s\<lparr>world := sample_w\<lparr>sw_status := LOCKED\<rparr>\<rparr>)))) = 0"
  by (simp add: setKeyStoreCoinType_def prog_defs sample_defs emitted_def dispatched_def)

text \<open>
  C8, amended. Let the coin type that the keyring computes for the chain before the call
  be \<open>prevCoinType\<close>. If it equals the coin type passed, \<open>setKeyStoreCoinType\<close> dispatches
  no \<open>keystore-changed\<close> event. If it differs, the method dispatches exactly one when
  the keyring's own \<open>setKeyStoreCoinType\<close> returns, and none when that call throws: the
  method then fails with the keyring's error.
\<close>

theorem setKeyStoreCoinType_notifies_on_change:
  assumes "getChainCoinType c chainId (world s) = Inr defaultCoinType"
    and "keyRing_computeKeyStoreCoinType c chainId defaultCoinType (world s) = Inr prevCoinType"
  shows "(prevCoinType = coinType \<longrightarrow>
           dispatched WEBPAGE_PORT ''keystore-changed''
             (emitted s (snd (setKeyStoreCoinType c chainId coinType s))) = 0)
       \<and> (prevCoinType \<noteq> coinType
            \<and> keyRing_setKeyStoreCoinType c chainId coinType (world s) = (Inr (), w1) \<longrightarrow>
           dispatched WEBPAGE_PORT ''keystore-changed''
             (emitted s (snd (setKeyStoreCoinType c chainId coinType s))) = 1
           \<and> emitted s (snd (setKeyStoreCoinType c chainId coinType s)) =
               [KeyRingOp ''setKeyStoreCoinType'',
                DispatchEvent WEBPAGE_PORT ''keystore-changed'' (JObj [])])
       \<and> (prevCoinType \<noteq> coinType
            \<and> keyRing_setKeyStoreCoinType c chainId coinType (world s) = (Inl e, w1) \<longrightarrow>
           dispatched WEBPAGE_PORT ''keystore-changed''
             (emitted s (snd (setKeyStoreCoinType c chainId coinType s))) = 0
           \<and> setKeyStoreCoinType c chainId coinType s =
               (Inl e, s\<lparr>world := w1, trace := trace s @ [KeyRingOp ''setKeyStoreCoinType'']\<rparr>))"
  using assms
  by (cases "keyRing_setKeyStoreCoinType c chainId coinType (world s)";
      cases "fst (keyRing_setKeyStoreCoinType c chainId coinType (world s))")
     (simp_all add: setKeyStoreCoinType_def prog_defs emitted_def dispatched_def)

theorem setKeyStoreCoinType_notifies_on_change_witness:
  "dispatched WEBPAGE_PORT ''keystore-changed''
     (emitted sample_s (snd (setKeyStoreCoinType sample ''cosmoshub-4'' 118 sample_s))) = 0
   \<and> dispatched WEBPAGE_PORT ''keystore-changed''
     (emitted sample_s (snd (setKeyStoreCoinType sample ''cosmoshub-4'' 60 sample_s))) = 1
   \<and> dispatched WEBPAGE_PORT ''keystore-changed''
     (emitted (sample_s\<lparr>world := sample_w\<lparr>sw_coinType := Some 118\<rparr>\<rparr>)
       (snd (setKeyStoreCoinType sample ''cosmoshub-4'' 60
          (sample_s\<lparr>world := sample_w\<lparr>sw_coinType := Some 118\<rparr>\<rparr>)))) = 0"
proof -
  let ?set = "sample_s\<lparr>world := sample_w\<lparr>sw_coinType := Some 118\<rparr>\<rparr>"
  have coinType: "getChainCoinType sample ''cosmoshub-4'' (world sample_s) = Inr 118"
    by (simp add: sample_def)
  have prevCoinType:
    "keyRing_computeKeyStoreCoinType sample ''cosmoshub-4'' 118 (world sample_s) = Inr 118"
    by (simp add: sample_def sample_s_def sample_w_def)
  have accepted: "keyRing_setKeyStoreCoinType sample ''cosmoshub-4'' 60 (world sample_s)
      = (Inr (), sample_w\<lparr>sw_coinType := Some 60\<rparr>)"
    by (simp add: sample_def sample_s_def sample_w_def)
  have coinType': "getChainCoinType sample ''cosmoshub-4'' (world ?set) = Inr 118"
    by (simp add: sample_def)
  have prevCoinType':
    "keyRing_computeKeyStoreCoinType sample ''cosmoshub-4'' 118 (world ?set) = Inr 118"
    by (simp add: sample_def sample_s_def sample_w_def)
  have refused: "keyRing_setKeyStoreCoinType sample ''cosmoshub-4'' 60 (world ?set)
      = (Inl (Error ''Coin type already set''), sample_w\<lparr>sw_coinType := Some 118\<rparr>)"
    by (simp add: sample_def sample_s_def sample_w_def)
  have same: "dispatched WEBPAGE_PORT ''keystore-changed''
      (emitted sample_s (snd (setKeyStoreCoinType sample ''cosmoshub-4'' 118 sample_s))) = 0"
    using setKeyStoreCoinType_notifies_on_change
      [OF coinType prevCoinType, where coinType = 118]
    by simp
  have changed: "dispatched WEBPAGE_PORT ''keystore-changed''
      (emitted sample_s (snd (setKeyStoreCoinType sample ''cosmoshub-4'' 60 sample_s))) = 1"
    using setKeyStoreCoinType_notifies_on_change
      [OF coinType prevCoinType,
        where coinType = 60 and ?w1.0 = "sample_w\<lparr>sw_coinType := Some 60\<rparr>"] accepted
    by (simp add: dispatched_def)
  have thrown: "dispatched WEBPAGE_PORT ''keystore-changed''
      (emitted ?set (snd (setKeyStoreCoinType sample ''cosmoshub-4'' 60 ?set))) = 0"
    using conjunct2 [OF conjunct2 [OF setKeyStoreCoinType_notifies_on_change
      [OF coinType' prevCoinType',
        where coinType = 60 and ?w1.0 = "sample_w\<lparr>sw_coinType := Some 118\<rparr>"
          and e = "Error ''Coin type already set''"]]] refused
    by (simp add: emitted_def dispatched_def)
  from same changed thrown show ?thesis by blast
qed

subsection \<open>\<open>verifyADR36AminoSignDoc\<close>\<close>

text \<open>
  C9, as stated, fails: a mismatch is not answered with \<open>false\<close> but thrown. On the
  sample world a verification request for a signer that is not the active key's address
  ends in the exception \<open>Signer mismatched\<close>.
\<close>

theorem verifyADR36AminoSignDoc_throws_on_mismatch:
  "verifyADR36AminoSignDoc sample ''cosmoshub-4'' ''cosmos1abc'' [104, 105]
     \<lparr>pub_key_type = ''tendermint/PubKeySecp256k1'', pub_key_value = ''AA'',
      signature = ''ABB''\<rparr> sample_s
   = (Inl (Error ''Signer mismatched''), sample_s)"
  by (simp add: verifyADR36AminoSignDoc_def prog_defs sample_defs Let_def)

text \<open>
  C9, amended. Once the key and the address have been obtained,
  \<open>verifyADR36AminoSignDoc\<close> checks, in this order, that the signer is the active key's
  bech32 address, that the type of the public key is \<open>tendermint/PubKeySecp256k1\<close>, and
  that the base64 text of the active key's public key is the one supplied; the first
  check that fails throws an error with its own message (\<open>Signer mismatched\<close>,
  \<open>Unsupported type of pub key: \<close> and the type, \<open>Pub key unmatched\<close>). Only when all three
  pass is the signature verified over the ADR-36 document made from signer and message,
  and the answer of that verification is the result. The state does not change.
\<close>

theorem verifyADR36AminoSignDoc_checks_in_order:
  assumes "getChainCoinType c chainId (world s) = Inr coinType"
    and "keyRing_getKey c chainId coinType (world s) = Inr key"
    and "getChainInfo c chainId (world s) = Inr chainInfo"
    and "toBech32 c (address key) (bech32PrefixAccAddr chainInfo) = Inr bech32Address"
  shows "verifyADR36AminoSignDoc c chainId signer data sg s =
     (if signer \<noteq> bech32Address then Inl (Error ''Signer mismatched'')
      else if pub_key_type sg \<noteq> ''tendermint/PubKeySecp256k1''
      then Inl (Error (''Unsupported type of pub key: '' @ pub_key_type sg))
      else if toBase64 c (pubKey key) \<noteq> pub_key_value sg
      then Inl (Error ''Pub key unmatched'')
      else lib_verifyADR36AminoSignDoc c (bech32PrefixAccAddr chainInfo)
             (makeADR36AminoSignDoc c signer data)
             (fromBase64 c (pub_key_value sg)) (fromBase64 c (signature sg)),
      s)"
  using assms by (simp add: verifyADR36AminoSignDoc_def prog_defs Let_def)

theorem verifyADR36AminoSignDoc_checks_in_order_witness:
  "verifyADR36AminoSignDoc sample ''cosmoshub-4'' ''cosmos1xyz'' [104, 105]
     \<lparr>pub_key_type = ''tendermint/PubKeySecp256k1'', pub_key_value = ''AA'',
      signature = ''ABB''\<rparr> sample_s
   = (Inr True, sample_s)
   \<and> verifyADR36AminoSignDoc sample ''cosmoshub-4'' ''cosmos1xyz'' [104, 105]
     \<lparr>pub_key_type = ''tendermint/PubKeyEd25519'', pub_key_value = ''AAA'',
      signature = ''ABB''\<rparr> sample_s
   = (Inl (Error ''Unsupported type of pub key: tendermint/PubKeyEd25519''), sample_s)
   \<and> verifyADR36AminoSignDoc sample ''cosmoshub-4'' ''cosmos1xyz'' [104, 105]
     \<lparr>pub_key_type = ''tendermint/PubKeySecp256k1'', pub_key_value = ''AAA'',
      signature = ''ABB''\<rparr> sample_s
   = (Inl (Error ''Pub key unmatched''), sample_s)"
proof -
  have coinType: "getChainCoinType sample ''cosmoshub-4'' (world sample_s) = Inr 118"
    by (simp add: sample_def)
  have key: "keyRing_getKey sample ''cosmoshub-4'' 118 (world sample_s) = Inr sample_key"
    by (simp add: sample_def sample_s_def sample_w_def)
  have chainInfo: "getChainInfo sample ''cosmoshub-4'' (world sample_s) = Inr sample_chainInfo"
    by (simp add: sample_def)
  have bech32: "toBech32 sample (address sample_key) (bech32PrefixAccAddr sample_chainInfo)
      = Inr ''cosmos1xyz''"
    by (simp add: sample_def sample_chainInfo_def)
  note run = verifyADR36AminoSignDoc_checks_in_order [OF coinType key chainInfo bech32]
  show ?thesis
    unfolding run by (simp add: sample_def sample_key_def sample_chainInfo_def)
qed

subsection \<open>\<open>changeKeyStoreFromMultiKeyStore\<close>\<close>

text \<open>
  C10. Whatever the keyring answers to \<open>changeKeyStoreFromMultiKeyStore\<close>, a value or an
  error, the service calls it once and then dispatches one \<open>keystore-changed\<close> event to
  the web page port; the outcome of the method is the keyring's.
\<close>

theorem changeKeyStoreFromMultiKeyStore_always_dispatches:
  "emitted s (snd (changeKeyStoreFromMultiKeyStore c index s)) =
     [KeyRingOp ''changeKeyStoreFromMultiKeyStore'',
      DispatchEvent WEBPAGE_PORT ''keystore-changed'' (JObj [])]
   \<and> fst (changeKeyStoreFromMultiKeyStore c index s) =
       fst (keyRing_changeKeyStoreFromMultiKeyStore c index (world s))
   \<and> dispatched WEBPAGE_PORT ''keystore-changed''
       (emitted s (snd (changeKeyStoreFromMultiKeyStore c index s))) = 1"
  by (simp add: changeKeyStoreFromMultiKeyStore_def prog_defs emitted_def dispatched_def
      split: prod.splits sum.splits)

text \<open>On the sample world, which has two key stores, index 5 is refused by the keyring
  and the event is dispatched all the same.\<close>

lemma changeKeyStoreFromMultiKeyStore_out_of_range:
  "changeKeyStoreFromMultiKeyStore sample 5 sample_s =
     (Inl (Error ''Invalid keystore''),
      sample_s\<lparr>trace := [KeyRingOp ''changeKeyStoreFromMultiKeyStore'',
         DispatchEvent WEBPAGE_PORT ''keystore-changed'' (JObj [])]\<rparr>)"
  by (simp add: changeKeyStoreFromMultiKeyStore_def prog_defs sample_defs)

end
